theory Spec2Isabelle
  imports Complex_Main "HOL-Library.Sublist"
begin

section \<open>Values of the source language\<close>

text \<open>
  The script \<^verbatim>\<open>main.ts\<close> computes with two kinds of numbers: \<^verbatim>\<open>bigint\<close> (every value read
  from a contract, and the block counts) and \<^verbatim>\<open>number\<close> (every reward, yield and price).

  A \<^verbatim>\<open>bigint\<close> is an unbounded integer, modelled as \<open>int\<close>. Its division truncates
  toward zero and throws a \<^verbatim>\<open>RangeError\<close> on a zero divisor; its power throws a
  \<^verbatim>\<open>RangeError\<close> on a negative exponent.

  A \<^verbatim>\<open>number\<close> is an IEEE-754 double. The model keeps its special values and their
  arithmetic (\<open>x / 0\<close> is an infinity or \<open>NaN\<close>, \<open>0 * Infinity\<close> is \<open>NaN\<close>, and so on),
  and computes a finite result exactly, as a real: rounding, overflow and the sign of
  zero are not modelled. Every divisor of the script is a literal or the conversion of
  a \<^verbatim>\<open>bigint\<close>, so no divisor is a negative zero.
\<close>

datatype error = RangeError | TypeError | ExternalReadFailure

datatype jsnum = Fin real | PInf | NInf | NaN

fun js_mul :: "jsnum \<Rightarrow> jsnum \<Rightarrow> jsnum" where
  "js_mul NaN y = NaN"
| "js_mul x NaN = NaN"
| "js_mul (Fin a) (Fin b) = Fin (a * b)"
| "js_mul (Fin a) PInf = (if 0 < a then PInf else if a < 0 then NInf else NaN)"
| "js_mul (Fin a) NInf = (if 0 < a then NInf else if a < 0 then PInf else NaN)"
| "js_mul PInf (Fin b) = (if 0 < b then PInf else if b < 0 then NInf else NaN)"
| "js_mul NInf (Fin b) = (if 0 < b then NInf else if b < 0 then PInf else NaN)"
| "js_mul PInf PInf = PInf"
| "js_mul PInf NInf = NInf"
| "js_mul NInf PInf = NInf"
| "js_mul NInf NInf = PInf"

fun js_div :: "jsnum \<Rightarrow> jsnum \<Rightarrow> jsnum" where
  "js_div NaN y = NaN"
| "js_div x NaN = NaN"
| "js_div (Fin a) (Fin b) =
     (if b \<noteq> 0 then Fin (a / b)
      else if 0 < a then PInf else if a < 0 then NInf else NaN)"
| "js_div (Fin a) PInf = Fin 0"
| "js_div (Fin a) NInf = Fin 0"
| "js_div PInf (Fin b) = (if 0 \<le> b then PInf else NInf)"
| "js_div NInf (Fin b) = (if 0 \<le> b then NInf else PInf)"
| "js_div PInf PInf = NaN"
| "js_div PInf NInf = NaN"
| "js_div NInf PInf = NaN"
| "js_div NInf NInf = NaN"

fun is_finite :: "jsnum \<Rightarrow> bool" where
  "is_finite (Fin a) = True"
| "is_finite x = False"

definition Number :: "int \<Rightarrow> jsnum" where
  \<comment> \<open>\<^verbatim>\<open>Number(b)\<close> for a bigint \<open>b\<close>.\<close>
  "Number b = Fin (of_int b)"

definition parseFloat_formatUnits :: "int \<Rightarrow> int \<Rightarrow> jsnum" where
  \<comment> \<open>\<^verbatim>\<open>parseFloat(formatUnits(v, Number(d)))\<close>: viem's \<^verbatim>\<open>formatUnits\<close> writes \<open>v / 10^d\<close>
      as a decimal string, which \<^verbatim>\<open>parseFloat\<close> reads back.\<close>
  "parseFloat_formatUnits v d = Fin (of_int v / 10 ^ nat d)"

definition bigint_div :: "int \<Rightarrow> int \<Rightarrow> error + int" where
  "bigint_div a b =
     (if b = 0 then Inl RangeError else Inr (sgn a * sgn b * (\<bar>a\<bar> div \<bar>b\<bar>)))"

definition bigint_pow :: "int \<Rightarrow> int \<Rightarrow> error + int" where
  "bigint_pow a n = (if n < 0 then Inl RangeError else Inr (a ^ nat n))"

section \<open>Block time and block counts\<close>

text \<open>
  \<^verbatim>\<open>
  const avgBlockTime = (latestBlock.timestamp - block.timestamp) / 100n;
  const blocksPerHour = 3600n / avgBlockTime;
  const blocksPerDay = blocksPerHour * 24n;
  const blocksPerWeek = blocksPerDay * 7n;
  const blocksPerMonth = blocksPerWeek * 4n;
  const blocksPerYear = blocksPerMonth * 12n;
  \<close>
\<close>

definition avgBlockTime :: "int \<Rightarrow> int \<Rightarrow> error + int" where
  "avgBlockTime latest_timestamp block_timestamp =
     bigint_div (latest_timestamp - block_timestamp) 100"

record block_counts =
  blocksPerHour :: int
  blocksPerDay :: int
  blocksPerWeek :: int
  blocksPerMonth :: int
  blocksPerYear :: int

definition blockCounts :: "int \<Rightarrow> error + block_counts" where
  "blockCounts avg =
     (case bigint_div 3600 avg of
        Inl e \<Rightarrow> Inl e
      | Inr h \<Rightarrow>
          (let d = h * 24; w = d * 7; m = w * 4; y = m * 12
           in Inr \<lparr>blocksPerHour = h, blocksPerDay = d, blocksPerWeek = w,
                   blocksPerMonth = m, blocksPerYear = y\<rparr>))"

section \<open>Chain facts and the selection of active pools\<close>

text \<open>
  The reads of the staking contract, of a pool contract (by its address) and of an
  ERC-20 token (by its address). The user address of \<^verbatim>\<open>userInfo\<close> and
  \<^verbatim>\<open>pendingStargate\<close> is the one given on the command line, fixed for a run.
\<close>

type_synonym address = string

type_synonym pool_info = "address \<times> int \<times> int \<times> int"
  \<comment> \<open>\<^verbatim>\<open>poolInfo\<close>: lpToken, allocPoint, lastRewardBlock, accStargatePerShare\<close>

type_synonym user_info = "int \<times> int"
  \<comment> \<open>\<^verbatim>\<open>userInfo\<close>: amount, rewardDebt\<close>

type_synonym pool_entry = "nat \<times> pool_info \<times> user_info"
  \<comment> \<open>an element of \<^verbatim>\<open>pools\<close>: \<^verbatim>\<open>[pid, poolInfo, userInfo]\<close>\<close>

record chain_facts =
  stargatePerBlock :: int
  stargate :: address
  poolLength :: int
  totalAllocPoint :: int
  poolInfo :: "int \<Rightarrow> pool_info"
  userInfo :: "int \<Rightarrow> user_info"
  lpBalances :: "int \<Rightarrow> int"
  pendingStargate :: "int \<Rightarrow> int"
  lp_name :: "address \<Rightarrow> string"
  lp_token :: "address \<Rightarrow> address"
  lp_decimals :: "address \<Rightarrow> int"
  erc20_name :: "address \<Rightarrow> string"

definition array_keys :: "int \<Rightarrow> error + nat list" where
  \<comment> \<open>\<^verbatim>\<open>[...Array(Number(n)).keys()]\<close>: an array length is an integer in \<open>[0, 2^32)\<close>.\<close>
  "array_keys n = (if 0 \<le> n \<and> n < 2 ^ 32 then Inr [0..<nat n] else Inl RangeError)"

definition fetchPools :: "chain_facts \<Rightarrow> error + pool_entry list" where
  "fetchPools c =
     (case array_keys (poolLength c) of
        Inl e \<Rightarrow> Inl e
      | Inr ks \<Rightarrow> Inr (map (\<lambda>k. (k, poolInfo c (int k), userInfo c (int k))) ks))"

record active_pool =
  pid :: int
  contract :: address
  allocPoint :: int
  lastRewardBlock :: int
  accStargatePerShare :: int
  userStaked :: int
  rewardDebt :: int

fun is_active :: "pool_entry \<Rightarrow> bool" where
  \<comment> \<open>\<^verbatim>\<open>pool[1] > 0 && userInfo[0] > 0\<close>\<close>
  "is_active (k, (lp, alloc, lastReward, acc), (amount, debt)) = (alloc > 0 \<and> amount > 0)"

fun mk_active :: "pool_entry \<Rightarrow> active_pool" where
  "mk_active (k, (lp, alloc, lastReward, acc), (amount, debt)) =
     \<lparr>pid = int k, contract = lp, allocPoint = alloc, lastRewardBlock = lastReward,
      accStargatePerShare = acc, userStaked = amount, rewardDebt = debt\<rparr>"

definition activePools :: "pool_entry list \<Rightarrow> active_pool list" where
  "activePools pools = map mk_active (filter is_active pools)"

section \<open>Rewards, yields and the user's share of a pool\<close>

text \<open>
  The body of the \<^verbatim>\<open>activePools.map(async (pool) => ...)\<close> callback. Each constant of
  the callback is a definition here; \<open>poolMetrics\<close> puts them together in the order
  of the source.
  \<^verbatim>\<open>
  const stgPerBlockF = parseFloat(formatUnits(stgPerBlock, Number(STG_DECIMALS)));
  const rewardPerBlock = stgPerBlockF * (Number(pool.allocPoint) / Number(totalAllocPoint));
  const rewardPerDay = rewardPerBlock * Number(blocksPerDay);
  const stakedTokens = Number(lpSupply / 10n ** decimals);
  const weeklyAPY = rewardPerWeek * 100 / stakedTokens;
  const dailyAPY = weeklyAPY / 7.0;
  const monthlyAPY = weeklyAPY * 4.0;
  const yearlyAPY = weeklyAPY * 52.0;
  const userStakedPct = (Number(pool.userStaked) * 100) / staked;
  const userDailyReward = (rewardPerDay * userStakedPct) / 100;
  \<close>
\<close>

definition STG_DECIMALS :: int where
  "STG_DECIMALS = 18"

definition STG_TICKER :: string where
  "STG_TICKER = ''STG''"

definition stgPerBlockF :: "int \<Rightarrow> jsnum" where
  "stgPerBlockF stgPerBlock = parseFloat_formatUnits stgPerBlock STG_DECIMALS"

definition calc_rewardPerBlock :: "int \<Rightarrow> int \<Rightarrow> int \<Rightarrow> jsnum" where
  "calc_rewardPerBlock stgPerBlock alloc totalAlloc =
     js_mul (stgPerBlockF stgPerBlock) (js_div (Number alloc) (Number totalAlloc))"

definition calc_rewardPer :: "jsnum \<Rightarrow> int \<Rightarrow> jsnum" where
  \<comment> \<open>\<^verbatim>\<open>rewardPerBlock * Number(blocksPerX)\<close>, for each of the four windows\<close>
  "calc_rewardPer reward blocks = js_mul reward (Number blocks)"

definition calc_stakedTokens :: "int \<Rightarrow> int \<Rightarrow> error + jsnum" where
  "calc_stakedTokens lpSupply dec =
     (case bigint_pow 10 dec of
        Inl e \<Rightarrow> Inl e
      | Inr p \<Rightarrow> (case bigint_div lpSupply p of Inl e \<Rightarrow> Inl e | Inr q \<Rightarrow> Inr (Number q)))"

definition calc_weeklyAPY :: "jsnum \<Rightarrow> jsnum \<Rightarrow> jsnum" where
  "calc_weeklyAPY perWeek stakedTokens = js_div (js_mul perWeek (Fin 100)) stakedTokens"

definition calc_dailyAPY :: "jsnum \<Rightarrow> jsnum" where
  "calc_dailyAPY weekly = js_div weekly (Fin 7)"

definition calc_monthlyAPY :: "jsnum \<Rightarrow> jsnum" where
  "calc_monthlyAPY weekly = js_mul weekly (Fin 4)"

definition calc_yearlyAPY :: "jsnum \<Rightarrow> jsnum" where
  "calc_yearlyAPY weekly = js_mul weekly (Fin 52)"

definition calc_userStakedPct :: "int \<Rightarrow> int \<Rightarrow> jsnum" where
  \<comment> \<open>\<^verbatim>\<open>staked\<close> is \<^verbatim>\<open>Number(lpSupply)\<close>: raw units, as \<^verbatim>\<open>pool.userStaked\<close> is\<close>
  "calc_userStakedPct user lpSupply = js_div (js_mul (Number user) (Fin 100)) (Number lpSupply)"

definition calc_userReward :: "jsnum \<Rightarrow> jsnum \<Rightarrow> jsnum" where
  \<comment> \<open>\<^verbatim>\<open>(rewardPerX * userStakedPct) / 100\<close>, for each of the four windows\<close>
  "calc_userReward reward pct = js_div (js_mul reward pct) (Fin 100)"

text \<open>
  The record that the callback returns: the fields of the pool (\<^verbatim>\<open>...pool\<close>) and the
  ones computed here. A contract handle is its address, so the \<^verbatim>\<open>erc20\<close> handle of the
  source is the field \<open>token\<close>.
\<close>

record pool_metrics = active_pool +
  decimals :: int
  staked :: int
  lpToken :: string
  token :: address
  pendingStg :: int
  underlyingToken :: string
  rewardPerBlock :: jsnum
  rewardPerDay :: jsnum
  rewardPerWeek :: jsnum
  rewardPerMonth :: jsnum
  rewardPerYear :: jsnum
  dailyAPY :: jsnum
  weeklyAPY :: jsnum
  monthlyAPY :: jsnum
  yearlyAPY :: jsnum
  userStakedPct :: jsnum
  userDailyReward :: jsnum
  userWeeklyReward :: jsnum
  userMonthlyReward :: jsnum
  userYearlyReward :: jsnum

definition poolMetrics :: "chain_facts \<Rightarrow> block_counts \<Rightarrow> active_pool \<Rightarrow> error + pool_metrics" where
  "poolMetrics c bc pool =
     (let lpTokenName = lp_name c (contract pool);
          tokenAddr = lp_token c (contract pool);
          dec = lp_decimals c (contract pool);
          underlying = erc20_name c tokenAddr;
          lpSupply = lpBalances c (pid pool);
          perBlock = calc_rewardPerBlock (stargatePerBlock c) (allocPoint pool) (totalAllocPoint c);
          perDay = calc_rewardPer perBlock (blocksPerDay bc);
          perWeek = calc_rewardPer perBlock (blocksPerWeek bc);
          perMonth = calc_rewardPer perBlock (blocksPerMonth bc);
          perYear = calc_rewardPer perBlock (blocksPerYear bc)
      in case calc_stakedTokens lpSupply dec of
           Inl e \<Rightarrow> Inl e
         | Inr stakedTokens \<Rightarrow>
             (let weekly = calc_weeklyAPY perWeek stakedTokens;
                  pct = calc_userStakedPct (userStaked pool) lpSupply
              in Inr (active_pool.extend pool
                   (pool_metrics.fields dec lpSupply lpTokenName tokenAddr
                      (pendingStargate c (pid pool)) underlying
                      perBlock perDay perWeek perMonth perYear
                      (calc_dailyAPY weekly) weekly (calc_monthlyAPY weekly)
                      (calc_yearlyAPY weekly)
                      pct (calc_userReward perDay pct) (calc_userReward perWeek pct)
                      (calc_userReward perMonth pct) (calc_userReward perYear pct)))))"

fun mapM_err :: "('a \<Rightarrow> error + 'b) \<Rightarrow> 'a list \<Rightarrow> error + 'b list" where
  "mapM_err f [] = Inr []"
| "mapM_err f (x # xs) =
     (case f x of
        Inl e \<Rightarrow> Inl e
      | Inr y \<Rightarrow> (case mapM_err f xs of Inl e \<Rightarrow> Inl e | Inr ys \<Rightarrow> Inr (y # ys)))"

definition activePoolsWithNames ::
  "chain_facts \<Rightarrow> block_counts \<Rightarrow> active_pool list \<Rightarrow> error + pool_metrics list" where
  \<comment> \<open>\<^verbatim>\<open>Promise.all\<close>: one rejected callback rejects the whole\<close>
  "activePoolsWithNames c bc pools = mapM_err (poolMetrics c bc) pools"

section \<open>Token prices\<close>

text \<open>
  \<^verbatim>\<open>tokenPrices\<close> is a plain object keyed by token address: a map from strings, compared
  character by character. An entry of the feed has a \<^verbatim>\<open>usd\<close> field and no ticker;
  a field that is absent reads as \<^verbatim>\<open>undefined\<close>, here \<open>None\<close>.
\<close>

record contract_addresses =
  LP_STAKING :: address
  USDC :: address
  USDT :: address

definition CONTRACT_ADDRESSES_MAP :: "string \<Rightarrow> contract_addresses option" where
  "CONTRACT_ADDRESSES_MAP chain =
     (if chain = ''mainnet'' then
        Some \<lparr>LP_STAKING = ''0xB0D502E938ed5f4df2E681fE6E419ff29631d62b'',
              USDC = ''0xA0b86991c6218b36c1d19D4a2e9Eb0cE3606eB48'',
              USDT = ''0xdAC17F958D2ee523a2206206994597C13D831ec7''\<rparr>
      else if chain = ''bsc'' then
        Some \<lparr>LP_STAKING = ''0x3052A0F6ab15b4AE1df39962d5DdEFacA86DaB47'',
              USDC = ''0x8AC76a51cc950d9822D68b83fE1Ad97B32Cd580d'',
              USDT = ''0x55d398326f99059fF775485246999027B3197955''\<rparr>
      else if chain = ''polygon'' then
        Some \<lparr>LP_STAKING = ''0x8731d54E9D02c286767d56ac03e8037C07e01e98'',
              USDC = ''0x2791Bca1f2de4661ED88A30C99A7a9449Aa84174'',
              USDT = ''0xc2132D05D31c914a87C6611C10748AEb04B58e8F''\<rparr>
      else None)"

definition zeroAddress :: address where
  "zeroAddress = ''0x0000000000000000000000000000000000000000''"

record price =
  usd :: "jsnum option"
  ticker :: "string option"

type_synonym token_prices = "string \<rightharpoonup> price"

record price_feed =
  simpleTokenPrice :: "string \<Rightarrow> string \<Rightarrow> error + token_prices"
    \<comment> \<open>platform id, comma-separated contract addresses\<close>
  simplePrice :: "string \<Rightarrow> error + token_prices"
    \<comment> \<open>comma-separated coin ids\<close>

fun join :: "string \<Rightarrow> string list \<Rightarrow> string" where
  "join sep [] = []"
| "join sep [x] = x"
| "join sep (x # y # ys) = x @ sep @ join sep (y # ys)"

definition stableCoins :: "contract_addresses \<Rightarrow> address list" where
  "stableCoins a = [USDC a, USDT a]"

definition filteredTokens :: "contract_addresses \<Rightarrow> address list \<Rightarrow> address list" where
  "filteredTokens a tokens = filter (\<lambda>t. t \<notin> set (stableCoins a)) tokens"

definition contract_addresses_arg :: "address list \<Rightarrow> string" where
  \<comment> \<open>\<^verbatim>\<open>filteredTokens.length > 1 ? filteredTokens.join(",") : filteredTokens[0]\<close>,
      evaluated only when the list is not empty\<close>
  "contract_addresses_arg ft = (if length ft > 1 then join '','' ft else hd ft)"

definition fetchTokenPrices :: "price_feed \<Rightarrow> address list \<Rightarrow> error + token_prices" where
  "fetchTokenPrices feed ft =
     (if length ft = 0 then Inr Map.empty
      else simpleTokenPrice feed ''ethereum'' (contract_addresses_arg ft))"

definition nativeToken :: "string \<Rightarrow> string" where
  "nativeToken chain =
     (if chain = ''mainnet'' then ''ethereum''
      else if chain = ''bsc'' then ''binancecoin''
      else if chain = ''polygon'' then ''matic-network''
      else ''ethereum'')"

definition nativeTokenTicker :: "string \<Rightarrow> string" where
  "nativeTokenTicker chain =
     (if chain = ''mainnet'' then ''ETH''
      else if chain = ''bsc'' then ''BNB''
      else if chain = ''polygon'' then ''MATIC''
      else ''ETH'')"

definition spread_ticker :: "price option \<Rightarrow> string \<Rightarrow> price" where
  \<comment> \<open>\<^verbatim>\<open>{ ...entry, ticker: t }\<close>; spreading \<^verbatim>\<open>undefined\<close> adds no field\<close>
  "spread_ticker entry t =
     \<lparr>usd = (case entry of None \<Rightarrow> None | Some p \<Rightarrow> usd p), ticker = Some t\<rparr>"

definition tokenPrices ::
  "string \<Rightarrow> price_feed \<Rightarrow> address \<Rightarrow> address list \<Rightarrow> error + token_prices" where
  "tokenPrices chain feed stargateTokenAddress tokens =
     (case CONTRACT_ADDRESSES_MAP chain of
        None \<Rightarrow> Inl TypeError
      | Some a \<Rightarrow>
          (case fetchTokenPrices feed (filteredTokens a tokens) of
             Inl e \<Rightarrow> Inl e
           | Inr fetched \<Rightarrow>
               (let tp1 = fetched(USDC a \<mapsto> \<lparr>usd = Some (Fin 1), ticker = Some ''USDC''\<rparr>);
                    tp2 = tp1(USDT a \<mapsto> \<lparr>usd = Some (Fin 1), ticker = Some ''USDT''\<rparr>)
                in case simplePrice feed (join '','' [''stargate-finance'', nativeToken chain]) of
                     Inl e \<Rightarrow> Inl e
                   | Inr pricesResponse \<Rightarrow>
                       (let tp3 = tp2(stargateTokenAddress \<mapsto>
                                    spread_ticker (pricesResponse ''stargate-finance'') STG_TICKER);
                            tp4 = tp3(zeroAddress \<mapsto>
                                    spread_ticker (pricesResponse (nativeToken chain))
                                      (nativeTokenTicker chain))
                        in Inr tp4))))"

section \<open>The report of the pools\<close>

text \<open>
  The \<^verbatim>\<open>activePoolsWithNames.forEach\<close> loop prints each pool: first its names,
  addresses and token-denominated figures, then it looks the prices up
  (\<^verbatim>\<open>tokenPrices[pool.token].usd\<close>, \<^verbatim>\<open>tokenPrices[stargateTokenAddress].usd\<close>) and prints
  the figures in USD. Reading \<^verbatim>\<open>.usd\<close> of a missing entry throws a \<^verbatim>\<open>TypeError\<close>, which
  nothing catches: the lines printed so far stay printed and the run ends.

  A printed line is its label and its value before formatting: \<^verbatim>\<open>toFixed\<close> and the
  currency formatter are kept as constructors.
\<close>

datatype shown =
  Text string
  | Index nat
  | Units int int      \<comment> \<open>\<^verbatim>\<open>formatUnits(value, Number(decimals))\<close>\<close>
  | Fixed nat jsnum    \<comment> \<open>\<^verbatim>\<open>x.toFixed(digits)\<close>\<close>
  | Money jsnum        \<comment> \<open>\<^verbatim>\<open>humanizeMoneyValue(x)\<close>\<close>

datatype line = Line string shown | Bar

definition toNumber :: "jsnum option \<Rightarrow> jsnum" where
  \<comment> \<open>\<^verbatim>\<open>undefined\<close> in arithmetic is \<open>NaN\<close>\<close>
  "toNumber v = (case v of None \<Rightarrow> NaN | Some x \<Rightarrow> x)"

definition tokenLines :: "bool \<Rightarrow> nat \<Rightarrow> pool_metrics \<Rightarrow> line list" where
  "tokenLines verbose i pool =
     [Line ''Pool'' (Index i),
      Line ''LP Asset'' (Text (lpToken pool)),
      Line ''Underlying Asset'' (Text (underlyingToken pool)),
      Line ''LP Token Address'' (Text (contract pool)),
      Line ''Token Address'' (Text (token pool))]
     @ (if verbose then [Line ''Staked'' (Units (staked pool) (decimals pool))] else [])
     @ [Line ''User Staked'' (Units (userStaked pool) (decimals pool)),
        Line ''Pending STG'' (Units (pendingStg pool) STG_DECIMALS)]
     @ (if verbose then
          [Line ''Reward Per Block'' (Fixed 2 (rewardPerBlock pool)),
           Line ''Reward Per Day'' (Fixed 2 (rewardPerDay pool)),
           Line ''Reward Per Week'' (Fixed 2 (rewardPerWeek pool)),
           Line ''Reward Per Month'' (Fixed 2 (rewardPerMonth pool)),
           Line ''Reward Per Year'' (Fixed 2 (rewardPerYear pool)),
           Line ''Weekly APY'' (Fixed 4 (weeklyAPY pool)),
           Line ''Monthly APY'' (Fixed 2 (monthlyAPY pool)),
           Line ''Yearly APY'' (Fixed 2 (yearlyAPY pool)),
           Line ''User Staked Percentage'' (Fixed 4 (userStakedPct pool))]
        else [])
     @ [Line ''User Daily Reward'' (Fixed 4 (userDailyReward pool)),
        Line ''User Weekly Reward'' (Fixed 2 (userWeeklyReward pool)),
        Line ''User Monthly Reward'' (Fixed 2 (userMonthlyReward pool)),
        Line ''User Yearly Reward'' (Fixed 0 (userYearlyReward pool))]"

definition usdLines :: "bool \<Rightarrow> jsnum \<Rightarrow> jsnum \<Rightarrow> pool_metrics \<Rightarrow> line list" where
  "usdLines verbose lpTokenPrice stgPrice pool =
     (let lpValue = js_mul lpTokenPrice (parseFloat_formatUnits (staked pool) (decimals pool));
          pendingStgValue = js_mul stgPrice (parseFloat_formatUnits (pendingStg pool) STG_DECIMALS);
          dailyYield = js_mul (userDailyReward pool) stgPrice;
          weeklyYield = js_mul (userWeeklyReward pool) stgPrice;
          monthlyYield = js_mul (userMonthlyReward pool) stgPrice;
          yearlyYield = js_mul (userYearlyReward pool) stgPrice
      in [Line ''Pending STG Value'' (Money pendingStgValue)]
         @ (if verbose then
              [Line ''LP Value'' (Money lpValue),
               Line ''Daily Yield'' (Money dailyYield),
               Line ''Weekly Yield'' (Money weeklyYield),
               Line ''Monthly Yield'' (Money monthlyYield),
               Line ''Yearly Yield'' (Money yearlyYield)]
            else [])
         @ [Line ''User Daily Yield'' (Money dailyYield),
            Line ''User Weekly Yield'' (Money weeklyYield),
            Line ''User Monthly Yield'' (Money monthlyYield),
            Line ''User Yearly Yield'' (Money yearlyYield),
            Bar])"

definition reportPool ::
  "bool \<Rightarrow> token_prices \<Rightarrow> address \<Rightarrow> nat \<Rightarrow> pool_metrics \<Rightarrow> line list \<times> error option" where
  "reportPool verbose tp stargateTokenAddress i pool =
     (case tp (token pool) of
        None \<Rightarrow> (tokenLines verbose i pool, Some TypeError)
      | Some lpEntry \<Rightarrow>
          (case tp stargateTokenAddress of
             None \<Rightarrow> (tokenLines verbose i pool, Some TypeError)
           | Some stgEntry \<Rightarrow>
               (tokenLines verbose i pool
                  @ usdLines verbose (toNumber (usd lpEntry)) (toNumber (usd stgEntry)) pool,
                None)))"

fun reportPools ::
  "bool \<Rightarrow> token_prices \<Rightarrow> address \<Rightarrow> nat \<Rightarrow> pool_metrics list \<Rightarrow> line list \<times> error option" where
  "reportPools verbose tp stg i [] = ([], None)"
| "reportPools verbose tp stg i (p # ps) =
     (case reportPool verbose tp stg i p of
        (ls, Some e) \<Rightarrow> (ls, Some e)
      | (ls, None) \<Rightarrow>
          (case reportPools verbose tp stg (Suc i) ps of (ls', r) \<Rightarrow> (ls @ ls', r)))"

section \<open>The run\<close>

text \<open>
  The script from the block-time estimate to the report of the pools. The result is
  the lines of the pool report and the error that ended the run, if one did. The
  lines printed before the pool report (the chain, the block time, the price table)
  are left out.
\<close>

record run_args =
  arg_chain :: string
  arg_verbose :: bool

definition run ::
  "run_args \<Rightarrow> int \<Rightarrow> int \<Rightarrow> chain_facts \<Rightarrow> price_feed \<Rightarrow> line list \<times> error option" where
  "run args latest_timestamp block_timestamp c feed =
     (case CONTRACT_ADDRESSES_MAP (arg_chain args) of
        None \<Rightarrow> ([], Some TypeError)
      | Some a \<Rightarrow>
     (case avgBlockTime latest_timestamp block_timestamp of
        Inl e \<Rightarrow> ([], Some e)
      | Inr avg \<Rightarrow>
     (case blockCounts avg of
        Inl e \<Rightarrow> ([], Some e)
      | Inr bc \<Rightarrow>
     (case fetchPools c of
        Inl e \<Rightarrow> ([], Some e)
      | Inr pools \<Rightarrow>
     (case activePoolsWithNames c bc (activePools pools) of
        Inl e \<Rightarrow> ([], Some e)
      | Inr ms \<Rightarrow>
     (case tokenPrices (arg_chain args) feed (stargate c) (map token ms) of
        Inl e \<Rightarrow> ([], Some e)
      | Inr tp \<Rightarrow> reportPools (arg_verbose args) tp (stargate c) 0 ms))))))"

section \<open>An example chain\<close>

text \<open>
  Four pools on mainnet, with the figures of the spec's end-to-end scenario: 10 STG
  per block, pool 0 with 100 of 1000 allocation points and 100000 tokens staked, of
  which the user holds 10000. Pool 1 has no allocation points, pool 2 no stake of
  the user, and pool 3 is active again. Both active pools hold a stablecoin.
\<close>

definition example_chain :: chain_facts where
  "example_chain =
     \<lparr>stargatePerBlock = 10000000000000000000,
      stargate = ''0xAf5191B0De278C7286d6C7CC6ab6BB8A73bA2Cd6'',
      poolLength = 4,
      totalAllocPoint = 1000,
      poolInfo = (\<lambda>k. if k = 0 then (''0xLP0'', 100, 0, 0)
                      else if k = 1 then (''0xLP1'', 0, 0, 0)
                      else if k = 2 then (''0xLP2'', 300, 0, 0)
                      else (''0xLP3'', 600, 0, 0)),
      userInfo = (\<lambda>k. if k = 0 then (10000000000, 0)
                      else if k = 1 then (5000000, 0)
                      else if k = 2 then (0, 0)
                      else (500000, 0)),
      lpBalances = (\<lambda>k. if k = 3 then 1500000 else 100000000000),
      pendingStargate = (\<lambda>k. 5000000000000000000),
      lp_name = (\<lambda>a. if a = ''0xLP0'' then ''S*USDC'' else ''S*USDT''),
      lp_token = (\<lambda>a. if a = ''0xLP0'' then ''0xA0b86991c6218b36c1d19D4a2e9Eb0cE3606eB48''
                      else ''0xdAC17F958D2ee523a2206206994597C13D831ec7''),
      lp_decimals = (\<lambda>a. 6),
      erc20_name = (\<lambda>a. if a = ''0xA0b86991c6218b36c1d19D4a2e9Eb0cE3606eB48'' then ''USD Coin''
                        else ''Tether USD'')\<rparr>"

definition example_pools :: "pool_entry list" where
  "example_pools =
     [(0, (''0xLP0'', 100, 0, 0), (10000000000, 0)),
      (1, (''0xLP1'', 0, 0, 0), (5000000, 0)),
      (2, (''0xLP2'', 300, 0, 0), (0, 0)),
      (3, (''0xLP3'', 600, 0, 0), (500000, 0))]"

definition silent_feed :: price_feed where
  \<comment> \<open>a feed that answers every query with an empty object\<close>
  "silent_feed = \<lparr>simpleTokenPrice = (\<lambda>platform q. Inr Map.empty), simplePrice = (\<lambda>q. Inr Map.empty)\<rparr>"

definition example_counts :: block_counts where
  \<comment> \<open>the block counts of a 12 second block time\<close>
  "example_counts =
     \<lparr>blocksPerHour = 300, blocksPerDay = 7200, blocksPerWeek = 50400,
      blocksPerMonth = 201600, blocksPerYear = 2419200\<rparr>"

definition example_metrics :: "pool_metrics list" where
  \<comment> \<open>what the script computes for the two active pools of the example chain\<close>
  "example_metrics =
     [\<lparr>pid = 0, contract = ''0xLP0'', allocPoint = 100, lastRewardBlock = 0,
       accStargatePerShare = 0, userStaked = 10000000000, rewardDebt = 0,
       decimals = 6, staked = 100000000000, lpToken = ''S*USDC'',
       token = ''0xA0b86991c6218b36c1d19D4a2e9Eb0cE3606eB48'',
       pendingStg = 5000000000000000000, underlyingToken = ''USD Coin'',
       rewardPerBlock = Fin 1, rewardPerDay = Fin 7200,
       rewardPerWeek = Fin 50400, rewardPerMonth = Fin 201600,
       rewardPerYear = Fin 2419200, dailyAPY = Fin (36 / 5),
       weeklyAPY = Fin (252 / 5), monthlyAPY = Fin (1008 / 5),
       yearlyAPY = Fin (13104 / 5), userStakedPct = Fin 10,
       userDailyReward = Fin 720, userWeeklyReward = Fin 5040,
       userMonthlyReward = Fin 20160, userYearlyReward = Fin 241920\<rparr>,
      \<lparr>pid = 3, contract = ''0xLP3'', allocPoint = 600, lastRewardBlock = 0,
       accStargatePerShare = 0, userStaked = 500000, rewardDebt = 0,
       decimals = 6, staked = 1500000, lpToken = ''S*USDT'',
       token = ''0xdAC17F958D2ee523a2206206994597C13D831ec7'',
       pendingStg = 5000000000000000000, underlyingToken = ''Tether USD'',
       rewardPerBlock = Fin 6, rewardPerDay = Fin 43200,
       rewardPerWeek = Fin 302400, rewardPerMonth = Fin 1209600,
       rewardPerYear = Fin 14515200, dailyAPY = Fin 4320000,
       weeklyAPY = Fin 30240000, monthlyAPY = Fin 120960000,
       yearlyAPY = Fin 1572480000, userStakedPct = Fin (100 / 3),
       userDailyReward = Fin 14400, userWeeklyReward = Fin 100800,
       userMonthlyReward = Fin 403200, userYearlyReward = Fin 4838400\<rparr>]"

text \<open>Variations of the example chain, and the addresses of mainnet.\<close>

definition WETH :: address where
  \<comment> \<open>a token that is no stablecoin: wrapped ether on mainnet\<close>
  "WETH = ''0xC02aaA39b223FE8D0A0e5C4F27eAD9083C756Cc2''"

definition weth_chain :: chain_facts where
  \<comment> \<open>the example chain, every pool holding wrapped ether\<close>
  "weth_chain = example_chain\<lparr>lp_token := (\<lambda>a. WETH)\<rparr>"

definition dust_chain :: chain_facts where
  \<comment> \<open>the example chain, pool 3 holding half a token in all, the user's\<close>
  "dust_chain = example_chain\<lparr>lpBalances := (\<lambda>k. if k = 3 then 500000 else 100000000000)\<rparr>"

definition zero_alloc_chain :: chain_facts where
  \<comment> \<open>the example chain with a total of zero allocation points\<close>
  "zero_alloc_chain = example_chain\<lparr>totalAllocPoint := 0\<rparr>"

definition mainnet_addresses :: contract_addresses where
  "mainnet_addresses =
     \<lparr>LP_STAKING = ''0xB0D502E938ed5f4df2E681fE6E419ff29631d62b'',
      USDC = ''0xA0b86991c6218b36c1d19D4a2e9Eb0cE3606eB48'',
      USDT = ''0xdAC17F958D2ee523a2206206994597C13D831ec7''\<rparr>"

text \<open>
  Three pools with 100, 200 and 300 of a total of 600 allocation points, the user
  holding a stake in each.
\<close>

definition sixths_chain :: chain_facts where
  "sixths_chain =
     example_chain
       \<lparr>poolLength := 3,
        totalAllocPoint := 600,
        poolInfo := (\<lambda>k. if k = 0 then (''0xLP0'', 100, 0, 0)
                        else if k = 1 then (''0xLP1'', 200, 0, 0)
                        else (''0xLP2'', 300, 0, 0)),
        userInfo := (\<lambda>k. (1000000, 0))\<rparr>"

definition sixths_pools :: "pool_entry list" where
  "sixths_pools =
     [(0, (''0xLP0'', 100, 0, 0), (1000000, 0)),
      (1, (''0xLP1'', 200, 0, 0), (1000000, 0)),
      (2, (''0xLP2'', 300, 0, 0), (1000000, 0))]"

section \<open>The weekly yield as the spec words it\<close>

text \<open>
  The spec divides the weekly reward times 100 by the pool's total staked amount
  converted to decimal units, that is by the raw amount over \<open>10^decimals\<close>, the number
  that \<^verbatim>\<open>formatUnits(lpSupply, decimals)\<close> writes.
\<close>

definition spec_weeklyAPY :: "jsnum \<Rightarrow> int \<Rightarrow> int \<Rightarrow> jsnum" where
  "spec_weeklyAPY perWeek lpSupply dec =
     js_div (js_mul perWeek (Fin 100)) (parseFloat_formatUnits lpSupply dec)"

section \<open>Block counts: results\<close>

lemma bigint_div_pos: "0 \<le> a \<Longrightarrow> 0 < b \<Longrightarrow> bigint_div a b = Inr (a div b)"
  by (cases "a = 0") (simp_all add: bigint_div_def)

lemma blockCounts_pos:
  "0 < avg \<Longrightarrow>
   blockCounts avg =
     Inr \<lparr>blocksPerHour = 3600 div avg, blocksPerDay = 3600 div avg * 24,
          blocksPerWeek = 3600 div avg * 24 * 7, blocksPerMonth = 3600 div avg * 24 * 7 * 4,
          blocksPerYear = 3600 div avg * 24 * 7 * 4 * 12\<rparr>"
  by (simp add: blockCounts_def bigint_div_pos Let_def)

lemma blockCounts_zero: "blockCounts 0 = Inl RangeError"
  by (simp add: blockCounts_def bigint_div_def)

lemma hour_pos_iff: "0 < avg \<Longrightarrow> 0 < (3600::int) div avg \<longleftrightarrow> avg \<le> 3600"
  by (simp add: pos_imp_zdiv_pos_iff)

text \<open>
  C5, as the spec states it, fails: an average block time above one hour gives zero
  blocks per hour, and every block count is then zero, not positive.
\<close>

theorem C5_blockCounts_counterexample:
  "blockCounts 3601 =
     Inr \<lparr>blocksPerHour = 0, blocksPerDay = 0, blocksPerWeek = 0,
          blocksPerMonth = 0, blocksPerYear = 0\<rparr>"
  by (simp add: blockCounts_def bigint_div_def Let_def)

text \<open>
  C5 (amended). For every positive average block time the block counts are computed
  (no error), blocksPerHour is the floor of 3600 / avgBlockTime, blocksPerDay is 24
  times that, and the cascade week = day * 7, month = week * 4, year = month * 12
  holds. The counts are never negative, and each of them is positive exactly when
  the average block time is at most 3600 seconds. An average block time of 12 seconds
  gives 300, 7200, 50400, 201600 and 2419200.
\<close>

theorem C5_blockCounts:
  assumes "0 < avg"
  shows "\<exists>bc. blockCounts avg = Inr bc
    \<and> blocksPerHour bc = 3600 div avg
    \<and> blocksPerDay bc = blocksPerHour bc * 24
    \<and> blocksPerWeek bc = blocksPerDay bc * 7
    \<and> blocksPerMonth bc = blocksPerWeek bc * 4
    \<and> blocksPerYear bc = blocksPerMonth bc * 12
    \<and> (0 < blocksPerHour bc) = (avg \<le> 3600)
    \<and> (0 < blocksPerDay bc) = (avg \<le> 3600)
    \<and> (0 < blocksPerWeek bc) = (avg \<le> 3600)
    \<and> (0 < blocksPerMonth bc) = (avg \<le> 3600)
    \<and> (0 < blocksPerYear bc) = (avg \<le> 3600)
    \<and> 0 \<le> blocksPerHour bc \<and> 0 \<le> blocksPerDay bc \<and> 0 \<le> blocksPerWeek bc
    \<and> 0 \<le> blocksPerMonth bc \<and> 0 \<le> blocksPerYear bc"
  using assms by (simp add: blockCounts_pos hour_pos_iff pos_imp_zdiv_nonneg_iff)

theorem C5_blockCounts_witness:
  "blockCounts 12 =
     Inr \<lparr>blocksPerHour = 300, blocksPerDay = 7200, blocksPerWeek = 50400,
          blocksPerMonth = 201600, blocksPerYear = 2419200\<rparr>"
proof -
  have "(0::int) < 12" by simp
  from C5_blockCounts [OF this] obtain bc where
    "blockCounts 12 = Inr bc" "blocksPerHour bc = 3600 div 12"
    "blocksPerDay bc = blocksPerHour bc * 24" "blocksPerWeek bc = blocksPerDay bc * 7"
    "blocksPerMonth bc = blocksPerWeek bc * 4" "blocksPerYear bc = blocksPerMonth bc * 12"
    by blast
  then show ?thesis by (cases bc) simp
qed

section \<open>The selection of active pools: results\<close>

lemma pid_mk_active: "pid (mk_active e) = int (fst e)"
  by (cases e rule: mk_active.cases) simp

lemma is_active_mk_active:
  "is_active e = (0 < allocPoint (mk_active e) \<and> 0 < userStaked (mk_active e))"
  by (cases e rule: is_active.cases) simp

lemma inj_mk_active: "inj mk_active"
proof (rule injI)
  fix x y :: pool_entry
  assume "mk_active x = mk_active y"
  then show "x = y"
    by (cases x rule: mk_active.cases, cases y rule: mk_active.cases) simp
qed

lemma activePools_subseq: "subseq (activePools pools) (map mk_active pools)"
  unfolding activePools_def by (simp add: subseq_map)

lemma activePools_member:
  "e \<in> set pools \<Longrightarrow> (mk_active e \<in> set (activePools pools)) = is_active e"
  unfolding activePools_def using inj_mk_active by (auto simp: inj_image_mem_iff dest: injD)

lemma activePools_positive:
  "p \<in> set (activePools pools) \<Longrightarrow> 0 < allocPoint p \<and> 0 < userStaked p"
  unfolding activePools_def by (auto simp: is_active_mk_active)

lemma activePools_filter:
  "activePools pools
     = filter (\<lambda>p. 0 < allocPoint p \<and> 0 < userStaked p) (map mk_active pools)"
proof -
  have "is_active = (\<lambda>e. 0 < allocPoint (mk_active e) \<and> 0 < userStaked (mk_active e))"
    by (rule ext) (rule is_active_mk_active)
  then show ?thesis
    by (simp only: activePools_def filter_map comp_def)
qed

lemma pids_activePools:
  "map pid (activePools pools) = map (int \<circ> fst) (filter is_active pools)"
  by (simp add: activePools_def pid_mk_active comp_def)

lemma sorted_pids_upt:
  "sorted_wrt (<) (map (int \<circ> fst) (filter P (map (\<lambda>k. (k, f k)) [0..<n])))"
proof -
  have "sorted_wrt (<) (filter (P \<circ> (\<lambda>k. (k, f k))) [0..<n])"
    by (rule sorted_wrt_filter) simp
  then have "sorted_wrt (<) (map int (filter (P \<circ> (\<lambda>k. (k, f k))) [0..<n]))"
    by (simp add: sorted_wrt_map)
  then show ?thesis
    by (simp add: filter_map comp_def)
qed

lemma fetchPools_sorted_pids:
  "fetchPools c = Inr pools \<Longrightarrow> sorted_wrt (<) (map pid (activePools pools))"
  unfolding pids_activePools
  by (auto simp: fetchPools_def array_keys_def sorted_pids_upt split: if_splits)

lemma fetchPools_example: "fetchPools example_chain = Inr example_pools"
  by (simp add: fetchPools_def array_keys_def example_chain_def example_pools_def upt_rec)

text \<open>
  C3. The active pools are the entries of \<open>pools\<close> with allocation points above zero
  and a user stake above zero, each turned into a pool record: the result is a
  subsequence of the input (same order, nothing added), an entry of the input is in
  the result exactly when both figures are positive, and every pool of the result
  has both figures positive; it is the input filtered on the two figures, in place.
  For the pools as read from the chain (ordinals 0 to poolLength - 1) the pool ids of
  the result are strictly increasing.
\<close>

theorem C3_activePools:
  "subseq (activePools pools) (map mk_active pools)
   \<and> (\<forall>k lp alloc lastReward acc amount debt.
        (k, (lp, alloc, lastReward, acc), (amount, debt)) \<in> set pools \<longrightarrow>
        (mk_active (k, (lp, alloc, lastReward, acc), (amount, debt)) \<in> set (activePools pools))
          = (0 < alloc \<and> 0 < amount))
   \<and> (\<forall>p \<in> set (activePools pools). 0 < allocPoint p \<and> 0 < userStaked p)
   \<and> (fetchPools c = Inr pools \<longrightarrow> sorted_wrt (<) (map pid (activePools pools)))
   \<and> activePools pools
       = filter (\<lambda>p. 0 < allocPoint p \<and> 0 < userStaked p) (map mk_active pools)"
proof (intro conjI allI impI ballI)
  show "subseq (activePools pools) (map mk_active pools)"
    by (rule activePools_subseq)
next
  show "activePools pools
       = filter (\<lambda>p. 0 < allocPoint p \<and> 0 < userStaked p) (map mk_active pools)"
    by (rule activePools_filter)
next
  fix k lp alloc lastReward acc amount debt
  assume "(k, (lp, alloc, lastReward, acc), (amount, debt)) \<in> set pools"
  from activePools_member [OF this]
  show "(mk_active (k, (lp, alloc, lastReward, acc), (amount, debt)) \<in> set (activePools pools))
          = (0 < alloc \<and> 0 < amount)"
    by simp
next
  fix p assume "p \<in> set (activePools pools)"
  then show "0 < allocPoint p" "0 < userStaked p"
    by (simp_all add: activePools_positive)
next
  assume "fetchPools c = Inr pools"
  then show "sorted_wrt (<) (map pid (activePools pools))"
    by (rule fetchPools_sorted_pids)
qed

theorem C3_activePools_witness:
  "fetchPools example_chain = Inr example_pools
   \<and> map pid (activePools example_pools) = [0, 3]
   \<and> subseq (activePools example_pools) (map mk_active example_pools)
   \<and> mk_active (1, (''0xLP1'', 0, 0, 0), (5000000, 0)) \<notin> set (activePools example_pools)
   \<and> mk_active (2, (''0xLP2'', 300, 0, 0), (0, 0)) \<notin> set (activePools example_pools)
   \<and> mk_active (3, (''0xLP3'', 600, 0, 0), (500000, 0)) \<in> set (activePools example_pools)
   \<and> sorted_wrt (<) (map pid (activePools example_pools))"
proof -
  note c3 = C3_activePools [of example_pools example_chain]
  from c3 have sub: "subseq (activePools example_pools) (map mk_active example_pools)"
    by (rule conjunct1)
  from c3 have mem: "\<forall>k lp alloc lastReward acc amount debt.
        (k, (lp, alloc, lastReward, acc), (amount, debt)) \<in> set example_pools \<longrightarrow>
        (mk_active (k, (lp, alloc, lastReward, acc), (amount, debt))
           \<in> set (activePools example_pools))
          = (0 < alloc \<and> 0 < amount)"
    by (elim conjE)
  from c3 have "fetchPools example_chain = Inr example_pools \<longrightarrow>
      sorted_wrt (<) (map pid (activePools example_pools))"
    by (elim conjE)
  with fetchPools_example
  have srt: "sorted_wrt (<) (map pid (activePools example_pools))"
    by (rule rev_mp)
  have pids: "map pid (activePools example_pools) = [0, 3]"
    by (simp add: activePools_def example_pools_def)
  have e1: "(1, (''0xLP1'', 0, 0, 0), (5000000, 0)) \<in> set example_pools"
    and e2: "(2, (''0xLP2'', 300, 0, 0), (0, 0)) \<in> set example_pools"
    and e3: "(3, (''0xLP3'', 600, 0, 0), (500000, 0)) \<in> set example_pools"
    by (simp_all add: example_pools_def)
  have m1: "mk_active (1, (''0xLP1'', 0, 0, 0), (5000000, 0)) \<notin> set (activePools example_pools)"
    using mem [rule_format, OF e1] by simp
  have m2: "mk_active (2, (''0xLP2'', 300, 0, 0), (0, 0)) \<notin> set (activePools example_pools)"
    using mem [rule_format, OF e2] by simp
  have m3: "mk_active (3, (''0xLP3'', 600, 0, 0), (500000, 0)) \<in> set (activePools example_pools)"
    using mem [rule_format, OF e3] by simp
  from fetchPools_example pids sub m1 m2 m3 srt show ?thesis
    by (intro conjI)
qed

section \<open>Pool metrics: what a computed record holds\<close>

lemma poolMetrics_pool:
  assumes "poolMetrics c bc pool = Inr m"
  shows "pid m = pid pool" "contract m = contract pool" "allocPoint m = allocPoint pool"
    "userStaked m = userStaked pool"
  using assms unfolding poolMetrics_def Let_def
  by (auto split: sum.splits simp: active_pool.defs pool_metrics.defs)

lemma poolMetrics_reads:
  assumes "poolMetrics c bc pool = Inr m"
  shows "decimals m = lp_decimals c (contract pool)" "staked m = lpBalances c (pid pool)"
    "token m = lp_token c (contract pool)"
  using assms unfolding poolMetrics_def Let_def
  by (auto split: sum.splits simp: active_pool.defs pool_metrics.defs)

lemma poolMetrics_reward:
  assumes "poolMetrics c bc pool = Inr m"
  shows "rewardPerBlock m =
           calc_rewardPerBlock (stargatePerBlock c) (allocPoint m) (totalAllocPoint c)"
    "rewardPerDay m = calc_rewardPer (rewardPerBlock m) (blocksPerDay bc)"
    "rewardPerWeek m = calc_rewardPer (rewardPerBlock m) (blocksPerWeek bc)"
    "rewardPerMonth m = calc_rewardPer (rewardPerBlock m) (blocksPerMonth bc)"
    "rewardPerYear m = calc_rewardPer (rewardPerBlock m) (blocksPerYear bc)"
  using assms unfolding poolMetrics_def Let_def
  by (auto split: sum.splits simp: active_pool.defs pool_metrics.defs)

lemma poolMetrics_apy:
  assumes "poolMetrics c bc pool = Inr m"
  shows "\<exists>st. calc_stakedTokens (staked m) (decimals m) = Inr st
           \<and> weeklyAPY m = calc_weeklyAPY (rewardPerWeek m) st"
    "dailyAPY m = calc_dailyAPY (weeklyAPY m)"
    "monthlyAPY m = calc_monthlyAPY (weeklyAPY m)"
    "yearlyAPY m = calc_yearlyAPY (weeklyAPY m)"
  using assms unfolding poolMetrics_def Let_def
  by (auto split: sum.splits simp: active_pool.defs pool_metrics.defs)

lemma poolMetrics_user:
  assumes "poolMetrics c bc pool = Inr m"
  shows "userStakedPct m = calc_userStakedPct (userStaked m) (staked m)"
    "userDailyReward m = calc_userReward (rewardPerDay m) (userStakedPct m)"
    "userWeeklyReward m = calc_userReward (rewardPerWeek m) (userStakedPct m)"
    "userMonthlyReward m = calc_userReward (rewardPerMonth m) (userStakedPct m)"
    "userYearlyReward m = calc_userReward (rewardPerYear m) (userStakedPct m)"
  using assms unfolding poolMetrics_def Let_def
  by (auto split: sum.splits simp: active_pool.defs pool_metrics.defs)

lemma poolMetrics_total:
  "calc_stakedTokens (lpBalances c (pid pool)) (lp_decimals c (contract pool)) = Inr st \<Longrightarrow>
   \<exists>m. poolMetrics c bc pool = Inr m"
  unfolding poolMetrics_def Let_def by simp

lemma calc_stakedTokens_nonneg:
  assumes "0 \<le> lpSupply" and "0 \<le> dec"
  shows "calc_stakedTokens lpSupply dec = Inr (Number (lpSupply div 10 ^ nat dec))"
proof -
  have "bigint_div lpSupply (10 ^ nat dec) = Inr (lpSupply div 10 ^ nat dec)"
    using assms by (intro bigint_div_pos) simp_all
  then show ?thesis
    using assms by (simp add: calc_stakedTokens_def bigint_pow_def)
qed

lemma calc_stakedTokens_Inr_decimals:
  "calc_stakedTokens lpSupply dec = Inr st \<Longrightarrow> 0 \<le> dec"
  by (auto simp: calc_stakedTokens_def bigint_pow_def split: if_splits)

lemma mapM_err_all2:
  "mapM_err f xs = Inr ys \<Longrightarrow> list_all2 (\<lambda>x y. f x = Inr y) xs ys"
  by (induction xs arbitrary: ys) (auto split: sum.splits)

lemma mapM_err_total:
  "\<forall>x \<in> set xs. \<exists>y. f x = Inr y \<Longrightarrow> \<exists>ys. mapM_err f xs = Inr ys"
  by (induction xs) auto

lemma activePoolsWithNames_all2:
  "activePoolsWithNames c bc pools = Inr ms \<Longrightarrow>
   list_all2 (\<lambda>pool m. poolMetrics c bc pool = Inr m) pools ms"
  unfolding activePoolsWithNames_def by (rule mapM_err_all2)

lemma calc_stakedTokens_total:
  "0 \<le> dec \<Longrightarrow> \<exists>st. calc_stakedTokens lpSupply dec = Inr st"
  by (simp add: calc_stakedTokens_def bigint_pow_def bigint_div_def)

lemma activePoolsWithNames_total:
  assumes "\<forall>pool \<in> set pools. 0 \<le> lp_decimals c (contract pool)"
  shows "\<exists>ms. activePoolsWithNames c bc pools = Inr ms"
  unfolding activePoolsWithNames_def
proof (rule mapM_err_total, rule ballI)
  fix pool assume "pool \<in> set pools"
  with assms have "0 \<le> lp_decimals c (contract pool)" by blast
  from calc_stakedTokens_total [OF this] obtain st where
    "calc_stakedTokens (lpBalances c (pid pool)) (lp_decimals c (contract pool)) = Inr st"
    by blast
  then show "\<exists>m. poolMetrics c bc pool = Inr m"
    by (rule poolMetrics_total)
qed

lemma calc_stakedTokens_floor:
  assumes "0 \<le> lpSupply" and "0 \<le> dec"
  shows "calc_stakedTokens lpSupply dec
           = Inr (Number \<lfloor>real_of_int lpSupply / 10 ^ nat dec\<rfloor>)"
proof -
  have "\<lfloor>real_of_int lpSupply / real_of_int (10 ^ nat dec)\<rfloor> = lpSupply div 10 ^ nat dec"
    by (rule floor_divide_of_int_eq)
  then have "\<lfloor>real_of_int lpSupply / 10 ^ nat dec\<rfloor> = lpSupply div 10 ^ nat dec"
    by simp
  with calc_stakedTokens_nonneg [OF assms] show ?thesis by simp
qed

lemma example_metrics_run:
  "activePoolsWithNames example_chain example_counts (activePools example_pools)
     = Inr example_metrics"
  by (simp add: activePoolsWithNames_def activePools_def example_pools_def poolMetrics_def
      example_chain_def example_counts_def example_metrics_def Let_def
      calc_rewardPerBlock_def calc_rewardPer_def calc_stakedTokens_def calc_weeklyAPY_def
      calc_dailyAPY_def calc_monthlyAPY_def calc_yearlyAPY_def calc_userStakedPct_def
      calc_userReward_def stgPerBlockF_def STG_DECIMALS_def parseFloat_formatUnits_def
      Number_def bigint_pow_def bigint_div_def active_pool.defs pool_metrics.defs)

section \<open>Rewards of a pool: results\<close>

lemma calc_rewardPerBlock_real:
  "totalAlloc \<noteq> 0 \<Longrightarrow>
   calc_rewardPerBlock stgPerBlock alloc totalAlloc =
     Fin (real_of_int stgPerBlock / 10 ^ 18 * (real_of_int alloc / real_of_int totalAlloc))"
  by (simp add: calc_rewardPerBlock_def stgPerBlockF_def parseFloat_formatUnits_def
      STG_DECIMALS_def Number_def)

lemma poolMetrics_rewardPerBlock_real:
  assumes "poolMetrics c bc pool = Inr m" and "totalAllocPoint c \<noteq> 0"
  shows "rewardPerBlock m =
     Fin (real_of_int (stargatePerBlock c) / 10 ^ 18
          * (real_of_int (allocPoint pool) / real_of_int (totalAllocPoint c)))"
  using poolMetrics_reward(1) [OF assms(1)] poolMetrics_pool(3) [OF assms(1)] assms(2)
  by (simp add: calc_rewardPerBlock_real)

lemma poolMetrics_rewards:
  assumes pm: "poolMetrics c bc pool = Inr m"
  shows "pid m = pid pool \<and> allocPoint m = allocPoint pool
    \<and> rewardPerBlock m =
         js_mul (parseFloat_formatUnits (stargatePerBlock c) STG_DECIMALS)
           (js_div (Number (allocPoint pool)) (Number (totalAllocPoint c)))
    \<and> rewardPerDay m = js_mul (rewardPerBlock m) (Number (blocksPerDay bc))
    \<and> rewardPerWeek m = js_mul (rewardPerBlock m) (Number (blocksPerWeek bc))
    \<and> rewardPerMonth m = js_mul (rewardPerBlock m) (Number (blocksPerMonth bc))
    \<and> rewardPerYear m = js_mul (rewardPerBlock m) (Number (blocksPerYear bc))
    \<and> (totalAllocPoint c \<noteq> 0 \<longrightarrow>
         (\<exists>r. r = real_of_int (stargatePerBlock c) / 10 ^ 18
                    * (real_of_int (allocPoint pool) / real_of_int (totalAllocPoint c))
            \<and> rewardPerBlock m = Fin r
            \<and> rewardPerDay m = Fin (r * real_of_int (blocksPerDay bc))
            \<and> rewardPerWeek m = Fin (r * real_of_int (blocksPerWeek bc))
            \<and> rewardPerMonth m = Fin (r * real_of_int (blocksPerMonth bc))
            \<and> rewardPerYear m = Fin (r * real_of_int (blocksPerYear bc))))"
proof -
  note rw = poolMetrics_reward [OF pm]
  note pl = poolMetrics_pool [OF pm]
  have block: "rewardPerBlock m =
      js_mul (parseFloat_formatUnits (stargatePerBlock c) STG_DECIMALS)
        (js_div (Number (allocPoint pool)) (Number (totalAllocPoint c)))"
    using rw(1) pl(3) by (simp add: calc_rewardPerBlock_def stgPerBlockF_def)
  have windows:
    "rewardPerDay m = js_mul (rewardPerBlock m) (Number (blocksPerDay bc))"
    "rewardPerWeek m = js_mul (rewardPerBlock m) (Number (blocksPerWeek bc))"
    "rewardPerMonth m = js_mul (rewardPerBlock m) (Number (blocksPerMonth bc))"
    "rewardPerYear m = js_mul (rewardPerBlock m) (Number (blocksPerYear bc))"
    using rw(2-5) by (simp_all add: calc_rewardPer_def)
  have finite: "\<exists>r. r = real_of_int (stargatePerBlock c) / 10 ^ 18
                    * (real_of_int (allocPoint pool) / real_of_int (totalAllocPoint c))
            \<and> rewardPerBlock m = Fin r
            \<and> rewardPerDay m = Fin (r * real_of_int (blocksPerDay bc))
            \<and> rewardPerWeek m = Fin (r * real_of_int (blocksPerWeek bc))
            \<and> rewardPerMonth m = Fin (r * real_of_int (blocksPerMonth bc))
            \<and> rewardPerYear m = Fin (r * real_of_int (blocksPerYear bc))"
    if nz: "totalAllocPoint c \<noteq> 0"
  proof -
    have "rewardPerBlock m = Fin (real_of_int (stargatePerBlock c) / 10 ^ 18
            * (real_of_int (allocPoint pool) / real_of_int (totalAllocPoint c)))"
      using pm nz by (rule poolMetrics_rewardPerBlock_real)
    then show ?thesis
      using windows by (simp add: Number_def)
  qed
  from pl(1,3) block windows finite show ?thesis by blast
qed

lemma sixths_rewards:
  assumes all2: "list_all2 (\<lambda>pool m. poolMetrics c bc pool = Inr m) pools ms"
    and allocs: "map allocPoint pools = [100, 200, 300]"
    and total: "totalAllocPoint c = 600"
  shows "map rewardPerBlock ms =
     [Fin (real_of_int (stargatePerBlock c) / 10 ^ 18 * (1 / 6)),
      Fin (real_of_int (stargatePerBlock c) / 10 ^ 18 * (2 / 6)),
      Fin (real_of_int (stargatePerBlock c) / 10 ^ 18 * (3 / 6))]"
proof -
  from allocs obtain p1 p2 p3 where pools: "pools = [p1, p2, p3]"
    and a: "allocPoint p1 = 100" "allocPoint p2 = 200" "allocPoint p3 = 300"
    by (auto simp: map_eq_Cons_conv)
  from all2 pools obtain m1 m2 m3 where ms: "ms = [m1, m2, m3]"
    and pm: "poolMetrics c bc p1 = Inr m1" "poolMetrics c bc p2 = Inr m2"
      "poolMetrics c bc p3 = Inr m3"
    by (auto simp: list_all2_Cons1)
  have nz: "totalAllocPoint c \<noteq> 0"
    using total by simp
  show ?thesis
    unfolding ms
    using poolMetrics_rewardPerBlock_real [OF pm(1) nz]
      poolMetrics_rewardPerBlock_real [OF pm(2) nz]
      poolMetrics_rewardPerBlock_real [OF pm(3) nz] a total
    by simp
qed

text \<open>
  C1. Whenever the records of the active pools are computed, there is one record for
  each active pool, in the order of the pools, and in the record of a pool the
  reward per block is the global reward per block in decimal form (the raw integer
  divided by \<open>10^18\<close>) times the quotient of that pool's allocation points by the
  total allocation points, and the reward of each window is the reward per block
  times the block count of the window, nothing compounded. With a total that is not
  zero these are the real numbers the formula names. With pools of 100, 200 and 300
  allocation points and a total of 600 the three rewards are the global reward per
  block times 1/6, 2/6 and 3/6. The records are computed whenever no pool reports a
  negative number of decimals.
\<close>

theorem C1_rewards:
  "(\<forall>ms. activePoolsWithNames c bc pools = Inr ms \<longrightarrow>
      list_all2
        (\<lambda>pool m.
           pid m = pid pool \<and> allocPoint m = allocPoint pool
           \<and> rewardPerBlock m =
                js_mul (parseFloat_formatUnits (stargatePerBlock c) STG_DECIMALS)
                  (js_div (Number (allocPoint pool)) (Number (totalAllocPoint c)))
           \<and> rewardPerDay m = js_mul (rewardPerBlock m) (Number (blocksPerDay bc))
           \<and> rewardPerWeek m = js_mul (rewardPerBlock m) (Number (blocksPerWeek bc))
           \<and> rewardPerMonth m = js_mul (rewardPerBlock m) (Number (blocksPerMonth bc))
           \<and> rewardPerYear m = js_mul (rewardPerBlock m) (Number (blocksPerYear bc))
           \<and> (totalAllocPoint c \<noteq> 0 \<longrightarrow>
                (\<exists>r. r = real_of_int (stargatePerBlock c) / 10 ^ 18
                           * (real_of_int (allocPoint pool) / real_of_int (totalAllocPoint c))
                   \<and> rewardPerBlock m = Fin r
                   \<and> rewardPerDay m = Fin (r * real_of_int (blocksPerDay bc))
                   \<and> rewardPerWeek m = Fin (r * real_of_int (blocksPerWeek bc))
                   \<and> rewardPerMonth m = Fin (r * real_of_int (blocksPerMonth bc))
                   \<and> rewardPerYear m = Fin (r * real_of_int (blocksPerYear bc)))))
        pools ms
      \<and> (map allocPoint pools = [100, 200, 300] \<and> totalAllocPoint c = 600 \<longrightarrow>
           map rewardPerBlock ms =
             [Fin (real_of_int (stargatePerBlock c) / 10 ^ 18 * (1 / 6)),
              Fin (real_of_int (stargatePerBlock c) / 10 ^ 18 * (2 / 6)),
              Fin (real_of_int (stargatePerBlock c) / 10 ^ 18 * (3 / 6))]))
   \<and> ((\<forall>pool \<in> set pools. 0 \<le> lp_decimals c (contract pool)) \<longrightarrow>
        (\<exists>ms. activePoolsWithNames c bc pools = Inr ms))"
proof (intro conjI allI impI)
  fix ms assume run: "activePoolsWithNames c bc pools = Inr ms"
  note all2 = activePoolsWithNames_all2 [OF run]
  show "list_all2
        (\<lambda>pool m.
           pid m = pid pool \<and> allocPoint m = allocPoint pool
           \<and> rewardPerBlock m =
                js_mul (parseFloat_formatUnits (stargatePerBlock c) STG_DECIMALS)
                  (js_div (Number (allocPoint pool)) (Number (totalAllocPoint c)))
           \<and> rewardPerDay m = js_mul (rewardPerBlock m) (Number (blocksPerDay bc))
           \<and> rewardPerWeek m = js_mul (rewardPerBlock m) (Number (blocksPerWeek bc))
           \<and> rewardPerMonth m = js_mul (rewardPerBlock m) (Number (blocksPerMonth bc))
           \<and> rewardPerYear m = js_mul (rewardPerBlock m) (Number (blocksPerYear bc))
           \<and> (totalAllocPoint c \<noteq> 0 \<longrightarrow>
                (\<exists>r. r = real_of_int (stargatePerBlock c) / 10 ^ 18
                           * (real_of_int (allocPoint pool) / real_of_int (totalAllocPoint c))
                   \<and> rewardPerBlock m = Fin r
                   \<and> rewardPerDay m = Fin (r * real_of_int (blocksPerDay bc))
                   \<and> rewardPerWeek m = Fin (r * real_of_int (blocksPerWeek bc))
                   \<and> rewardPerMonth m = Fin (r * real_of_int (blocksPerMonth bc))
                   \<and> rewardPerYear m = Fin (r * real_of_int (blocksPerYear bc)))))
        pools ms"
    using all2 by (rule list_all2_mono) (rule poolMetrics_rewards)
  assume "map allocPoint pools = [100, 200, 300] \<and> totalAllocPoint c = 600"
  then have "map allocPoint pools = [100, 200, 300]" and "totalAllocPoint c = 600"
    by simp_all
  with all2 show "map rewardPerBlock ms =
             [Fin (real_of_int (stargatePerBlock c) / 10 ^ 18 * (1 / 6)),
              Fin (real_of_int (stargatePerBlock c) / 10 ^ 18 * (2 / 6)),
              Fin (real_of_int (stargatePerBlock c) / 10 ^ 18 * (3 / 6))]"
    by (rule sixths_rewards)
next
  assume "\<forall>pool \<in> set pools. 0 \<le> lp_decimals c (contract pool)"
  then show "\<exists>ms. activePoolsWithNames c bc pools = Inr ms"
    by (rule activePoolsWithNames_total)
qed

lemma fetchPools_sixths: "fetchPools sixths_chain = Inr sixths_pools"
  by (simp add: fetchPools_def array_keys_def sixths_chain_def example_chain_def
      sixths_pools_def upt_rec)

theorem C1_rewards_witness:
  "length example_metrics = length (activePools example_pools)
   \<and> map rewardPerBlock example_metrics = [Fin 1, Fin 6]
   \<and> map rewardPerDay example_metrics = [Fin 7200, Fin 43200]
   \<and> map rewardPerWeek example_metrics = [Fin 50400, Fin 302400]
   \<and> map rewardPerMonth example_metrics = [Fin 201600, Fin 1209600]
   \<and> map rewardPerYear example_metrics = [Fin 2419200, Fin 14515200]
   \<and> fetchPools sixths_chain = Inr sixths_pools
   \<and> (\<exists>ms. activePoolsWithNames sixths_chain example_counts (activePools sixths_pools) = Inr ms
        \<and> map rewardPerBlock ms = [Fin (10 * (1 / 6)), Fin (10 * (2 / 6)), Fin (10 * (3 / 6))])"
proof -
  note ex = C1_rewards [of example_chain example_counts "activePools example_pools"]
  note ex_all2 = ex [THEN conjunct1, THEN spec, THEN mp, OF example_metrics_run, THEN conjunct1]
  from ex_all2 have len: "length example_metrics = length (activePools example_pools)"
    by (simp add: list_all2_lengthD)
  have vals: "map rewardPerBlock example_metrics = [Fin 1, Fin 6]"
    "map rewardPerDay example_metrics = [Fin 7200, Fin 43200]"
    "map rewardPerWeek example_metrics = [Fin 50400, Fin 302400]"
    "map rewardPerMonth example_metrics = [Fin 201600, Fin 1209600]"
    "map rewardPerYear example_metrics = [Fin 2419200, Fin 14515200]"
    by (simp_all add: example_metrics_def)
  note six = C1_rewards [of sixths_chain example_counts "activePools sixths_pools"]
  have dec: "\<forall>pool \<in> set (activePools sixths_pools). 0 \<le> lp_decimals sixths_chain (contract pool)"
    by (simp add: sixths_chain_def example_chain_def)
  from six [THEN conjunct2, THEN mp, OF dec] obtain ms where
    run: "activePoolsWithNames sixths_chain example_counts (activePools sixths_pools) = Inr ms"
    by (rule exE)
  have allocs: "map allocPoint (activePools sixths_pools) = [100, 200, 300]"
    by (simp add: activePools_def sixths_pools_def)
  have total: "totalAllocPoint sixths_chain = 600"
    by (simp add: sixths_chain_def)
  from six [THEN conjunct1, THEN spec, THEN mp, OF run, THEN conjunct2, THEN mp,
      OF conjI [OF allocs total]]
  have "map rewardPerBlock ms =
     [Fin (real_of_int (stargatePerBlock sixths_chain) / 10 ^ 18 * (1 / 6)),
      Fin (real_of_int (stargatePerBlock sixths_chain) / 10 ^ 18 * (2 / 6)),
      Fin (real_of_int (stargatePerBlock sixths_chain) / 10 ^ 18 * (3 / 6))]" .
  then have "map rewardPerBlock ms = [Fin (10 * (1 / 6)), Fin (10 * (2 / 6)), Fin (10 * (3 / 6))]"
    by (simp add: sixths_chain_def example_chain_def)
  with run have "activePoolsWithNames sixths_chain example_counts (activePools sixths_pools)
        = Inr ms
      \<and> map rewardPerBlock ms = [Fin (10 * (1 / 6)), Fin (10 * (2 / 6)), Fin (10 * (3 / 6))]"
    by (intro conjI)
  then have "\<exists>ms. activePoolsWithNames sixths_chain example_counts (activePools sixths_pools)
        = Inr ms
      \<and> map rewardPerBlock ms = [Fin (10 * (1 / 6)), Fin (10 * (2 / 6)), Fin (10 * (3 / 6))]"
    by (rule exI)
  with len vals fetchPools_sixths show ?thesis
    by (intro conjI)
qed

section \<open>Yields of a pool: results\<close>

lemma poolMetrics_yields:
  assumes pm: "poolMetrics c bc pool = Inr m"
  shows "pid m = pid pool
    \<and> staked m = lpBalances c (pid pool) \<and> decimals m = lp_decimals c (contract pool)
    \<and> (\<exists>stakedTokens.
          calc_stakedTokens (lpBalances c (pid pool)) (lp_decimals c (contract pool))
            = Inr stakedTokens
          \<and> weeklyAPY m = js_div (js_mul (rewardPerWeek m) (Fin 100)) stakedTokens
          \<and> (0 \<le> lpBalances c (pid pool) \<longrightarrow>
                stakedTokens = Number \<lfloor>real_of_int (lpBalances c (pid pool))
                                        / 10 ^ nat (lp_decimals c (contract pool))\<rfloor>))
    \<and> dailyAPY m = js_div (weeklyAPY m) (Fin 7)
    \<and> monthlyAPY m = js_mul (weeklyAPY m) (Fin 4)
    \<and> yearlyAPY m = js_mul (weeklyAPY m) (Fin 52)
    \<and> (\<forall>w. weeklyAPY m = Fin w \<longrightarrow>
          dailyAPY m = Fin (w / 7) \<and> monthlyAPY m = Fin (w * 4) \<and> yearlyAPY m = Fin (w * 52))"
proof -
  note rd = poolMetrics_reads [OF pm]
  note apy = poolMetrics_apy [OF pm]
  from apy(1) obtain st where
    st: "calc_stakedTokens (lpBalances c (pid pool)) (lp_decimals c (contract pool)) = Inr st"
    and weekly: "weeklyAPY m = js_div (js_mul (rewardPerWeek m) (Fin 100)) st"
    unfolding rd calc_weeklyAPY_def by blast
  have dec: "0 \<le> lp_decimals c (contract pool)"
    using st by (rule calc_stakedTokens_Inr_decimals)
  have fl: "st = Number \<lfloor>real_of_int (lpBalances c (pid pool))
                           / 10 ^ nat (lp_decimals c (contract pool))\<rfloor>"
    if "0 \<le> lpBalances c (pid pool)"
    using calc_stakedTokens_floor [OF that dec] st by simp
  have den: "\<exists>stakedTokens.
          calc_stakedTokens (lpBalances c (pid pool)) (lp_decimals c (contract pool))
            = Inr stakedTokens
          \<and> weeklyAPY m = js_div (js_mul (rewardPerWeek m) (Fin 100)) stakedTokens
          \<and> (0 \<le> lpBalances c (pid pool) \<longrightarrow>
                stakedTokens = Number \<lfloor>real_of_int (lpBalances c (pid pool))
                                        / 10 ^ nat (lp_decimals c (contract pool))\<rfloor>)"
    using st weekly fl by blast
  have multiples:
    "dailyAPY m = js_div (weeklyAPY m) (Fin 7)"
    "monthlyAPY m = js_mul (weeklyAPY m) (Fin 4)"
    "yearlyAPY m = js_mul (weeklyAPY m) (Fin 52)"
    using apy(2-4) by (simp_all add: calc_dailyAPY_def calc_monthlyAPY_def calc_yearlyAPY_def)
  have exact: "dailyAPY m = Fin (w / 7) \<and> monthlyAPY m = Fin (w * 4) \<and> yearlyAPY m = Fin (w * 52)"
    if "weeklyAPY m = Fin w" for w
    using multiples that by simp
  from poolMetrics_pool(1) [OF pm] rd(1,2) den multiples exact show ?thesis by blast
qed

text \<open>
  C2, as the spec states it, fails: the denominator of the weekly yield is not the
  staked amount converted to decimal units. Pool 3 of the example chain has 1.5
  tokens staked and a weekly reward of 302400: the script divides by the whole-token
  count 1 and computes a weekly yield of 30240000 per cent, where the division by
  1.5 of the spec gives 20160000.
\<close>

theorem C2_yields_counterexample:
  "activePoolsWithNames example_chain example_counts (activePools example_pools)
     = Inr example_metrics
   \<and> staked (example_metrics ! 1) = 1500000
   \<and> decimals (example_metrics ! 1) = 6
   \<and> rewardPerWeek (example_metrics ! 1) = Fin 302400
   \<and> weeklyAPY (example_metrics ! 1) = Fin 30240000
   \<and> spec_weeklyAPY (Fin 302400) 1500000 6 = Fin 20160000"
proof -
  have "staked (example_metrics ! 1) = 1500000" "decimals (example_metrics ! 1) = 6"
    "rewardPerWeek (example_metrics ! 1) = Fin 302400"
    "weeklyAPY (example_metrics ! 1) = Fin 30240000"
    by (simp_all add: example_metrics_def)
  moreover have "spec_weeklyAPY (Fin 302400) 1500000 6 = Fin 20160000"
    by (simp add: spec_weeklyAPY_def parseFloat_formatUnits_def)
  ultimately show ?thesis
    using example_metrics_run by (intro conjI)
qed

text \<open>
  C2 (amended). Whenever the records of the active pools are computed, there is one
  record for each active pool, in the order of the pools, and in the record of a
  pool the weekly yield is the weekly reward times 100 divided by \<^verbatim>\<open>stakedTokens\<close>,
  which is computed from the pool's total stake and decimals as read from the chain
  and is, for a stake that is not negative, the whole-token floor of the stake over
  \<open>10^decimals\<close>, not the exact decimal amount. The daily, monthly and yearly yields
  are the weekly yield divided by 7, times 4 and times 52; where the weekly yield is
  a finite number \<open>w\<close> they are exactly \<open>w / 7\<close>, \<open>w * 4\<close> and \<open>w * 52\<close> (no rounding
  is modelled, so the tolerance of the spec is met with distance zero). The records
  are computed whenever no pool reports a negative number of decimals.
\<close>

theorem C2_yields:
  "(\<forall>ms. activePoolsWithNames c bc pools = Inr ms \<longrightarrow>
      list_all2
        (\<lambda>pool m.
           pid m = pid pool
           \<and> staked m = lpBalances c (pid pool) \<and> decimals m = lp_decimals c (contract pool)
           \<and> (\<exists>stakedTokens.
                 calc_stakedTokens (lpBalances c (pid pool)) (lp_decimals c (contract pool))
                   = Inr stakedTokens
                 \<and> weeklyAPY m = js_div (js_mul (rewardPerWeek m) (Fin 100)) stakedTokens
                 \<and> (0 \<le> lpBalances c (pid pool) \<longrightarrow>
                       stakedTokens = Number \<lfloor>real_of_int (lpBalances c (pid pool))
                                               / 10 ^ nat (lp_decimals c (contract pool))\<rfloor>))
           \<and> dailyAPY m = js_div (weeklyAPY m) (Fin 7)
           \<and> monthlyAPY m = js_mul (weeklyAPY m) (Fin 4)
           \<and> yearlyAPY m = js_mul (weeklyAPY m) (Fin 52)
           \<and> (\<forall>w. weeklyAPY m = Fin w \<longrightarrow>
                 dailyAPY m = Fin (w / 7) \<and> monthlyAPY m = Fin (w * 4)
                 \<and> yearlyAPY m = Fin (w * 52)))
        pools ms)
   \<and> ((\<forall>pool \<in> set pools. 0 \<le> lp_decimals c (contract pool)) \<longrightarrow>
        (\<exists>ms. activePoolsWithNames c bc pools = Inr ms))"
proof (intro conjI allI impI)
  fix ms assume run: "activePoolsWithNames c bc pools = Inr ms"
  show "list_all2
        (\<lambda>pool m.
           pid m = pid pool
           \<and> staked m = lpBalances c (pid pool) \<and> decimals m = lp_decimals c (contract pool)
           \<and> (\<exists>stakedTokens.
                 calc_stakedTokens (lpBalances c (pid pool)) (lp_decimals c (contract pool))
                   = Inr stakedTokens
                 \<and> weeklyAPY m = js_div (js_mul (rewardPerWeek m) (Fin 100)) stakedTokens
                 \<and> (0 \<le> lpBalances c (pid pool) \<longrightarrow>
                       stakedTokens = Number \<lfloor>real_of_int (lpBalances c (pid pool))
                                               / 10 ^ nat (lp_decimals c (contract pool))\<rfloor>))
           \<and> dailyAPY m = js_div (weeklyAPY m) (Fin 7)
           \<and> monthlyAPY m = js_mul (weeklyAPY m) (Fin 4)
           \<and> yearlyAPY m = js_mul (weeklyAPY m) (Fin 52)
           \<and> (\<forall>w. weeklyAPY m = Fin w \<longrightarrow>
                 dailyAPY m = Fin (w / 7) \<and> monthlyAPY m = Fin (w * 4)
                 \<and> yearlyAPY m = Fin (w * 52)))
        pools ms"
    using activePoolsWithNames_all2 [OF run]
    by (rule list_all2_mono) (rule poolMetrics_yields)
next
  assume "\<forall>pool \<in> set pools. 0 \<le> lp_decimals c (contract pool)"
  then show "\<exists>ms. activePoolsWithNames c bc pools = Inr ms"
    by (rule activePoolsWithNames_total)
qed

theorem C2_yields_witness:
  "length example_metrics = length (activePools example_pools)
   \<and> (\<exists>stakedTokens.
         calc_stakedTokens (lpBalances example_chain 3) (lp_decimals example_chain ''0xLP3'')
           = Inr stakedTokens
         \<and> weeklyAPY (example_metrics ! 1)
             = js_div (js_mul (rewardPerWeek (example_metrics ! 1)) (Fin 100)) stakedTokens
         \<and> stakedTokens = Fin 1)
   \<and> map weeklyAPY example_metrics = [Fin (50400 * 100 / 100000), Fin (302400 * 100 / 1)]
   \<and> map dailyAPY example_metrics = [Fin (504 / 10 / 7), Fin (30240000 / 7)]
   \<and> map monthlyAPY example_metrics = [Fin (504 / 10 * 4), Fin (30240000 * 4)]
   \<and> map yearlyAPY example_metrics = [Fin (504 / 10 * 52), Fin (30240000 * 52)]"
proof -
  note ex = C2_yields [of example_chain example_counts "activePools example_pools"]
  note all2 = ex [THEN conjunct1, THEN spec, THEN mp, OF example_metrics_run]
  from all2 have len: "length example_metrics = length (activePools example_pools)"
    by (simp add: list_all2_lengthD)
  have i: "1 < length (activePools example_pools)"
    by (simp add: activePools_def example_pools_def)
  have pool: "pid (activePools example_pools ! 1) = 3"
    "contract (activePools example_pools ! 1) = ''0xLP3''"
    by (simp_all add: activePools_def example_pools_def)
  have nonneg: "0 \<le> lpBalances example_chain 3"
    by (simp add: example_chain_def)
  have fl: "\<lfloor>real_of_int (lpBalances example_chain 3)
              / 10 ^ nat (lp_decimals example_chain ''0xLP3'')\<rfloor> = 1"
    by (simp add: example_chain_def floor_eq_iff)
  from list_all2_nthD [OF all2 i] pool
  obtain st where
    "calc_stakedTokens (lpBalances example_chain 3) (lp_decimals example_chain ''0xLP3'') = Inr st"
    "weeklyAPY (example_metrics ! 1)
       = js_div (js_mul (rewardPerWeek (example_metrics ! 1)) (Fin 100)) st"
    "0 \<le> lpBalances example_chain 3 \<longrightarrow>
       st = Number \<lfloor>real_of_int (lpBalances example_chain 3)
                      / 10 ^ nat (lp_decimals example_chain ''0xLP3'')\<rfloor>"
    by auto
  with nonneg fl have den: "\<exists>stakedTokens.
         calc_stakedTokens (lpBalances example_chain 3) (lp_decimals example_chain ''0xLP3'')
           = Inr stakedTokens
         \<and> weeklyAPY (example_metrics ! 1)
             = js_div (js_mul (rewardPerWeek (example_metrics ! 1)) (Fin 100)) stakedTokens
         \<and> stakedTokens = Fin 1"
    by (auto simp: Number_def)
  have vals:
    "map weeklyAPY example_metrics = [Fin (50400 * 100 / 100000), Fin (302400 * 100 / 1)]"
    "map dailyAPY example_metrics = [Fin (504 / 10 / 7), Fin (30240000 / 7)]"
    "map monthlyAPY example_metrics = [Fin (504 / 10 * 4), Fin (30240000 * 4)]"
    "map yearlyAPY example_metrics = [Fin (504 / 10 * 52), Fin (30240000 * 52)]"
    by (simp_all add: example_metrics_def)
  from len den vals show ?thesis
    by (intro conjI)
qed

section \<open>The user's share of a pool: results\<close>

lemma userStakedPct_decimal_units:
  "js_div (js_mul (parseFloat_formatUnits user dec) (Fin 100)) (parseFloat_formatUnits lpSupply dec)
     = calc_userStakedPct user lpSupply"
proof (cases "lpSupply = 0")
  case True
  then show ?thesis
    by (simp add: calc_userStakedPct_def parseFloat_formatUnits_def Number_def
        zero_less_divide_iff divide_less_0_iff)
next
  case False
  then show ?thesis
    by (simp add: calc_userStakedPct_def parseFloat_formatUnits_def Number_def)
qed

lemma poolMetrics_share:
  assumes pm: "poolMetrics c bc pool = Inr m"
  shows "pid m = pid pool \<and> userStaked m = userStaked pool
    \<and> staked m = lpBalances c (pid pool) \<and> decimals m = lp_decimals c (contract pool)
    \<and> userStakedPct m =
         js_div (js_mul (parseFloat_formatUnits (userStaked pool) (decimals m)) (Fin 100))
           (parseFloat_formatUnits (staked m) (decimals m))
    \<and> userStakedPct m = js_div (js_mul (Number (userStaked pool)) (Fin 100)) (Number (staked m))
    \<and> userDailyReward m = js_div (js_mul (rewardPerDay m) (userStakedPct m)) (Fin 100)
    \<and> userWeeklyReward m = js_div (js_mul (rewardPerWeek m) (userStakedPct m)) (Fin 100)
    \<and> userMonthlyReward m = js_div (js_mul (rewardPerMonth m) (userStakedPct m)) (Fin 100)
    \<and> userYearlyReward m = js_div (js_mul (rewardPerYear m) (userStakedPct m)) (Fin 100)
    \<and> (staked m \<noteq> 0 \<longrightarrow>
          userStakedPct m = Fin (real_of_int (userStaked pool) * 100 / real_of_int (staked m))
          \<and> userStakedPct m =
              Fin (real_of_int (userStaked pool) / 10 ^ nat (decimals m) * 100
                   / (real_of_int (staked m) / 10 ^ nat (decimals m))))"
proof -
  note us = poolMetrics_user [OF pm]
  note pl = poolMetrics_pool [OF pm]
  note rd = poolMetrics_reads [OF pm]
  have raw: "userStakedPct m
      = js_div (js_mul (Number (userStaked pool)) (Fin 100)) (Number (staked m))"
    using us(1) pl(4) by (simp add: calc_userStakedPct_def)
  have dec: "userStakedPct m =
         js_div (js_mul (parseFloat_formatUnits (userStaked pool) (decimals m)) (Fin 100))
           (parseFloat_formatUnits (staked m) (decimals m))"
    using us(1) pl(4) by (simp add: userStakedPct_decimal_units)
  have rewards:
    "userDailyReward m = js_div (js_mul (rewardPerDay m) (userStakedPct m)) (Fin 100)"
    "userWeeklyReward m = js_div (js_mul (rewardPerWeek m) (userStakedPct m)) (Fin 100)"
    "userMonthlyReward m = js_div (js_mul (rewardPerMonth m) (userStakedPct m)) (Fin 100)"
    "userYearlyReward m = js_div (js_mul (rewardPerYear m) (userStakedPct m)) (Fin 100)"
    using us(2-5) by (simp_all add: calc_userReward_def)
  have finite: "userStakedPct m
        = Fin (real_of_int (userStaked pool) * 100 / real_of_int (staked m))
      \<and> userStakedPct m =
          Fin (real_of_int (userStaked pool) / 10 ^ nat (decimals m) * 100
               / (real_of_int (staked m) / 10 ^ nat (decimals m)))"
    if "staked m \<noteq> 0"
    using raw that by (simp add: Number_def)
  from pl(1,4) rd(1,2) dec raw rewards finite show ?thesis by blast
qed

text \<open>
  C4. Whenever the records of the active pools are computed, there is one record for
  each active pool, in the order of the pools, and in the record of a pool, for
  every window, the user's reward is the pool's reward of that window times the
  user's share in per cent, divided by 100. The share is the user's stake times 100
  divided by the pool's total stake, both in decimal token units (the raw amounts of
  the chain over \<open>10^decimals\<close>); the script computes it from the raw amounts, which is
  the same number. A pool reward of 1000 and a share of 25 per cent give a user
  reward of 250. The records are computed whenever no pool reports a negative number
  of decimals.
\<close>

theorem C4_user_share:
  "(\<forall>ms. activePoolsWithNames c bc pools = Inr ms \<longrightarrow>
      list_all2
        (\<lambda>pool m.
           pid m = pid pool \<and> userStaked m = userStaked pool
           \<and> staked m = lpBalances c (pid pool) \<and> decimals m = lp_decimals c (contract pool)
           \<and> userStakedPct m =
                js_div (js_mul (parseFloat_formatUnits (userStaked pool) (decimals m)) (Fin 100))
                  (parseFloat_formatUnits (staked m) (decimals m))
           \<and> userStakedPct m
                = js_div (js_mul (Number (userStaked pool)) (Fin 100)) (Number (staked m))
           \<and> userDailyReward m = js_div (js_mul (rewardPerDay m) (userStakedPct m)) (Fin 100)
           \<and> userWeeklyReward m = js_div (js_mul (rewardPerWeek m) (userStakedPct m)) (Fin 100)
           \<and> userMonthlyReward m = js_div (js_mul (rewardPerMonth m) (userStakedPct m)) (Fin 100)
           \<and> userYearlyReward m = js_div (js_mul (rewardPerYear m) (userStakedPct m)) (Fin 100)
           \<and> (staked m \<noteq> 0 \<longrightarrow>
                 userStakedPct m
                   = Fin (real_of_int (userStaked pool) * 100 / real_of_int (staked m))
                 \<and> userStakedPct m =
                     Fin (real_of_int (userStaked pool) / 10 ^ nat (decimals m) * 100
                          / (real_of_int (staked m) / 10 ^ nat (decimals m)))))
        pools ms)
   \<and> ((\<forall>pool \<in> set pools. 0 \<le> lp_decimals c (contract pool)) \<longrightarrow>
        (\<exists>ms. activePoolsWithNames c bc pools = Inr ms))
   \<and> (\<forall>reward pct. calc_userReward (Fin reward) (Fin pct) = Fin (reward * pct / 100))
   \<and> calc_userReward (Fin 1000) (Fin 25) = Fin 250"
proof (intro conjI allI impI)
  fix ms assume run: "activePoolsWithNames c bc pools = Inr ms"
  show "list_all2
        (\<lambda>pool m.
           pid m = pid pool \<and> userStaked m = userStaked pool
           \<and> staked m = lpBalances c (pid pool) \<and> decimals m = lp_decimals c (contract pool)
           \<and> userStakedPct m =
                js_div (js_mul (parseFloat_formatUnits (userStaked pool) (decimals m)) (Fin 100))
                  (parseFloat_formatUnits (staked m) (decimals m))
           \<and> userStakedPct m
                = js_div (js_mul (Number (userStaked pool)) (Fin 100)) (Number (staked m))
           \<and> userDailyReward m = js_div (js_mul (rewardPerDay m) (userStakedPct m)) (Fin 100)
           \<and> userWeeklyReward m = js_div (js_mul (rewardPerWeek m) (userStakedPct m)) (Fin 100)
           \<and> userMonthlyReward m = js_div (js_mul (rewardPerMonth m) (userStakedPct m)) (Fin 100)
           \<and> userYearlyReward m = js_div (js_mul (rewardPerYear m) (userStakedPct m)) (Fin 100)
           \<and> (staked m \<noteq> 0 \<longrightarrow>
                 userStakedPct m
                   = Fin (real_of_int (userStaked pool) * 100 / real_of_int (staked m))
                 \<and> userStakedPct m =
                     Fin (real_of_int (userStaked pool) / 10 ^ nat (decimals m) * 100
                          / (real_of_int (staked m) / 10 ^ nat (decimals m)))))
        pools ms"
    using activePoolsWithNames_all2 [OF run]
    by (rule list_all2_mono) (rule poolMetrics_share)
next
  assume "\<forall>pool \<in> set pools. 0 \<le> lp_decimals c (contract pool)"
  then show "\<exists>ms. activePoolsWithNames c bc pools = Inr ms"
    by (rule activePoolsWithNames_total)
next
  fix reward pct
  show "calc_userReward (Fin reward) (Fin pct) = Fin (reward * pct / 100)"
    by (simp add: calc_userReward_def)
next
  show "calc_userReward (Fin 1000) (Fin 25) = Fin 250"
    by (simp add: calc_userReward_def)
qed

theorem C4_user_share_witness:
  "length example_metrics = length (activePools example_pools)
   \<and> userStakedPct (example_metrics ! 1)
       = Fin (real_of_int 500000 / 10 ^ 6 * 100 / (real_of_int 1500000 / 10 ^ 6))
   \<and> map userStakedPct example_metrics = [Fin 10, Fin (100 / 3)]
   \<and> userDailyReward (example_metrics ! 1)
       = js_div (js_mul (rewardPerDay (example_metrics ! 1)) (Fin (100 / 3))) (Fin 100)
   \<and> map userDailyReward example_metrics = [Fin 720, Fin 14400]
   \<and> map userWeeklyReward example_metrics = [Fin 5040, Fin 100800]"
proof -
  note ex = C4_user_share [of example_chain example_counts "activePools example_pools"]
  note all2 = ex [THEN conjunct1, THEN spec, THEN mp, OF example_metrics_run]
  from all2 have len: "length example_metrics = length (activePools example_pools)"
    by (simp add: list_all2_lengthD)
  have i: "1 < length (activePools example_pools)"
    by (simp add: activePools_def example_pools_def)
  have pool: "userStaked (activePools example_pools ! 1) = 500000"
    by (simp add: activePools_def example_pools_def)
  have rec: "staked (example_metrics ! 1) = 1500000" "decimals (example_metrics ! 1) = 6"
    by (simp_all add: example_metrics_def)
  then have nz: "staked (example_metrics ! 1) \<noteq> 0" by simp
  from list_all2_nthD [OF all2 i] nz
  have "userStakedPct (example_metrics ! 1) =
          Fin (real_of_int (userStaked (activePools example_pools ! 1))
                 / 10 ^ nat (decimals (example_metrics ! 1)) * 100
               / (real_of_int (staked (example_metrics ! 1))
                    / 10 ^ nat (decimals (example_metrics ! 1))))"
    and "userDailyReward (example_metrics ! 1)
          = js_div (js_mul (rewardPerDay (example_metrics ! 1))
              (userStakedPct (example_metrics ! 1))) (Fin 100)"
    by blast+
  then have pct: "userStakedPct (example_metrics ! 1)
       = Fin (real_of_int 500000 / 10 ^ 6 * 100 / (real_of_int 1500000 / 10 ^ 6))"
    and day: "userDailyReward (example_metrics ! 1)
       = js_div (js_mul (rewardPerDay (example_metrics ! 1)) (Fin (100 / 3))) (Fin 100)"
    unfolding pool rec by simp_all
  have vals: "map userStakedPct example_metrics = [Fin 10, Fin (100 / 3)]"
    "map userDailyReward example_metrics = [Fin 720, Fin 14400]"
    "map userWeeklyReward example_metrics = [Fin 5040, Fin 100800]"
    by (simp_all add: example_metrics_def)
  from len pct vals(1) day vals(2,3) show ?thesis
    by (intro conjI)
qed

section \<open>Token prices: results\<close>


lemma tokenPrices_Inr:
  assumes "CONTRACT_ADDRESSES_MAP chain = Some a"
    and "fetchTokenPrices feed (filteredTokens a tokens) = Inr fetched"
    and "simplePrice feed (join '','' [''stargate-finance'', nativeToken chain]) = Inr pricesResponse"
  shows "tokenPrices chain feed stg tokens =
     Inr (fetched
       (USDC a \<mapsto> \<lparr>usd = Some (Fin 1), ticker = Some ''USDC''\<rparr>,
        USDT a \<mapsto> \<lparr>usd = Some (Fin 1), ticker = Some ''USDT''\<rparr>,
        stg \<mapsto> spread_ticker (pricesResponse ''stargate-finance'') STG_TICKER,
        zeroAddress \<mapsto> spread_ticker (pricesResponse (nativeToken chain)) (nativeTokenTicker chain)))"
  using assms by (simp add: tokenPrices_def Let_def)

lemma tokenPrices_cases:
  assumes "tokenPrices chain feed stg tokens = Inr tp"
  obtains a fetched pricesResponse where
    "CONTRACT_ADDRESSES_MAP chain = Some a"
    "fetchTokenPrices feed (filteredTokens a tokens) = Inr fetched"
    "simplePrice feed (join '','' [''stargate-finance'', nativeToken chain]) = Inr pricesResponse"
  using assms unfolding tokenPrices_def Let_def
  by (auto split: option.splits sum.splits)


lemma filteredTokens_keeps:
  "t \<in> set tokens \<Longrightarrow> t \<noteq> USDC a \<Longrightarrow> t \<noteq> USDT a \<Longrightarrow> t \<in> set (filteredTokens a tokens)"
  by (simp add: filteredTokens_def stableCoins_def)




section \<open>The report and the run: shared lemmas\<close>

lemma run_eq:
  assumes "CONTRACT_ADDRESSES_MAP (arg_chain args) = Some a"
    and "avgBlockTime latest_timestamp block_timestamp = Inr avg"
    and "blockCounts avg = Inr bc"
    and "fetchPools c = Inr pools"
    and "activePoolsWithNames c bc (activePools pools) = Inr ms"
    and "tokenPrices (arg_chain args) feed (stargate c) (map token ms) = Inr tp"
  shows "run args latest_timestamp block_timestamp c feed
           = reportPools (arg_verbose args) tp (stargate c) 0 ms"
  using assms by (simp add: run_def)

lemma tokenPrices_stg:
  assumes "tokenPrices chain feed stg tokens = Inr tp"
  shows "tp stg \<noteq> None"
  using assms unfolding tokenPrices_def Let_def
  by (auto split: option.splits sum.splits)

lemma tokenPrices_other:
  assumes "tokenPrices chain feed stg tokens = Inr tp"
    and "CONTRACT_ADDRESSES_MAP chain = Some a"
    and "fetchTokenPrices feed (filteredTokens a tokens) = Inr fetched"
    and "t \<noteq> USDC a" and "t \<noteq> USDT a" and "t \<noteq> stg" and "t \<noteq> zeroAddress"
  shows "tp t = fetched t"
  using assms unfolding tokenPrices_def Let_def
  by (auto split: option.splits sum.splits)

lemma reportPool_missing:
  "tp (token p) = None \<Longrightarrow>
   reportPool verbose tp stg i p = (tokenLines verbose i p, Some TypeError)"
  by (simp add: reportPool_def)

lemma reportPool_priced:
  "tp (token p) \<noteq> None \<Longrightarrow> tp stg \<noteq> None \<Longrightarrow> snd (reportPool verbose tp stg i p) = None"
  by (auto simp: reportPool_def split: option.splits)

lemma reportPools_priced:
  "tp stg \<noteq> None \<Longrightarrow> \<forall>q \<in> set qs. tp (token q) \<noteq> None \<Longrightarrow>
   snd (reportPools verbose tp stg i qs) = None"
proof (induction qs arbitrary: i)
  case Nil
  then show ?case by simp
next
  case (Cons q qs)
  then have "snd (reportPool verbose tp stg i q) = None"
    by (simp add: reportPool_priced)
  moreover have "snd (reportPools verbose tp stg (Suc i) qs) = None"
    using Cons by simp
  ultimately show ?case
    by (cases "reportPool verbose tp stg i q"; cases "reportPools verbose tp stg (Suc i) qs")
       simp
qed

lemma reportPools_append:
  "snd (reportPools verbose tp stg i qs) = None \<Longrightarrow>
   reportPools verbose tp stg i (qs @ rest) =
     (fst (reportPools verbose tp stg i qs) @ fst (reportPools verbose tp stg (i + length qs) rest),
      snd (reportPools verbose tp stg (i + length qs) rest))"
proof (induction qs arbitrary: i)
  case Nil
  then show ?case by simp
next
  case (Cons q qs)
  obtain ls r where q: "reportPool verbose tp stg i q = (ls, r)"
    by (cases "reportPool verbose tp stg i q")
  obtain ls' r' where qs: "reportPools verbose tp stg (Suc i) qs = (ls', r')"
    by (cases "reportPools verbose tp stg (Suc i) qs")
  from Cons.prems q qs have r: "r = None" and r': "r' = None"
    by (cases r; simp)+
  from Cons.IH [of "Suc i"] qs r'
  have "reportPools verbose tp stg (Suc i) (qs @ rest) =
     (ls' @ fst (reportPools verbose tp stg (Suc i + length qs) rest),
      snd (reportPools verbose tp stg (Suc i + length qs) rest))"
    by simp
  with q qs r show ?case by simp
qed

lemma reportPools_missing_head:
  "tp (token p) = None \<Longrightarrow>
   reportPools verbose tp stg i (p # ps) = (tokenLines verbose i p, Some TypeError)"
  by (simp add: reportPool_missing)

section \<open>A price that is missing: results\<close>

lemma example_block_time: "avgBlockTime 1200 0 = Inr 12"
  by (simp add: avgBlockTime_def bigint_div_def)

lemma example_block_counts: "blockCounts 12 = Inr example_counts"
  by (simp add: blockCounts_def bigint_div_def Let_def example_counts_def)

lemma mainnet_map: "CONTRACT_ADDRESSES_MAP ''mainnet'' = Some mainnet_addresses"
  by (simp add: CONTRACT_ADDRESSES_MAP_def mainnet_addresses_def)

lemma silent_simplePrice:
  "simplePrice silent_feed (join '','' [''stargate-finance'', nativeToken ''mainnet''])
     = Inr Map.empty"
  by (simp add: silent_feed_def)

lemma fetch_silent: "fetchTokenPrices silent_feed ft = Inr Map.empty"
  by (simp add: fetchTokenPrices_def silent_feed_def)

lemma silent_tokenPrices:
  "tokenPrices ''mainnet'' silent_feed stg tokens =
     Inr (Map.empty
       (USDC mainnet_addresses \<mapsto> \<lparr>usd = Some (Fin 1), ticker = Some ''USDC''\<rparr>,
        USDT mainnet_addresses \<mapsto> \<lparr>usd = Some (Fin 1), ticker = Some ''USDT''\<rparr>,
        stg \<mapsto> spread_ticker None STG_TICKER,
        zeroAddress \<mapsto> spread_ticker None ''ETH''))"
  by (simp add: tokenPrices_Inr [OF mainnet_map fetch_silent silent_simplePrice]
      nativeToken_def nativeTokenTicker_def)

lemma weth_metrics_run:
  "activePoolsWithNames weth_chain example_counts (activePools example_pools)
     = Inr (map (\<lambda>m. m\<lparr>token := WETH, underlyingToken := ''Tether USD''\<rparr>) example_metrics)"
  by (simp add: activePoolsWithNames_def activePools_def example_pools_def poolMetrics_def
      weth_chain_def WETH_def
      example_chain_def example_counts_def example_metrics_def Let_def
      calc_rewardPerBlock_def calc_rewardPer_def calc_stakedTokens_def calc_weeklyAPY_def
      calc_dailyAPY_def calc_monthlyAPY_def calc_yearlyAPY_def calc_userStakedPct_def
      calc_userReward_def stgPerBlockF_def STG_DECIMALS_def parseFloat_formatUnits_def
      Number_def bigint_pow_def bigint_div_def active_pool.defs pool_metrics.defs)

lemma fetchPools_weth: "fetchPools weth_chain = Inr example_pools"
  by (simp add: fetchPools_def array_keys_def weth_chain_def example_chain_def
      example_pools_def upt_rec)

text \<open>
  C7, as the spec states it, fails: nothing recovers from a missing price. On the
  example chain with every pool holding wrapped ether and a feed that answers with
  an empty object, the run prints the token-denominated lines of the first active
  pool and ends there with a \<^verbatim>\<open>TypeError\<close>: no line in USD, and nothing of pool 3.
\<close>

theorem C7_missing_price_counterexample:
  "run \<lparr>arg_chain = ''mainnet'', arg_verbose = False\<rparr> 1200 0 weth_chain silent_feed =
     ([Line ''Pool'' (Index 0),
       Line ''LP Asset'' (Text ''S*USDC''),
       Line ''Underlying Asset'' (Text ''Tether USD''),
       Line ''LP Token Address'' (Text ''0xLP0''),
       Line ''Token Address'' (Text ''0xC02aaA39b223FE8D0A0e5C4F27eAD9083C756Cc2''),
       Line ''User Staked'' (Units 10000000000 6),
       Line ''Pending STG'' (Units 5000000000000000000 18),
       Line ''User Daily Reward'' (Fixed 4 (Fin 720)),
       Line ''User Weekly Reward'' (Fixed 2 (Fin 5040)),
       Line ''User Monthly Reward'' (Fixed 2 (Fin 20160)),
       Line ''User Yearly Reward'' (Fixed 0 (Fin 241920))],
      Some TypeError)"
proof -
  let ?args = "\<lparr>arg_chain = ''mainnet'', arg_verbose = False\<rparr>"
  let ?ms = "map (\<lambda>m. m\<lparr>token := WETH, underlyingToken := ''Tether USD''\<rparr>) example_metrics"
  have "run ?args 1200 0 weth_chain silent_feed
          = reportPools False
              (Map.empty
                (USDC mainnet_addresses \<mapsto> \<lparr>usd = Some (Fin 1), ticker = Some ''USDC''\<rparr>,
                 USDT mainnet_addresses \<mapsto> \<lparr>usd = Some (Fin 1), ticker = Some ''USDT''\<rparr>,
                 stargate weth_chain \<mapsto> spread_ticker None STG_TICKER,
                 zeroAddress \<mapsto> spread_ticker None ''ETH''))
              (stargate weth_chain) 0 ?ms"
    using run_eq [of ?args mainnet_addresses 1200 0 12 example_counts weth_chain example_pools
        ?ms silent_feed]
    by (simp add: mainnet_map example_block_time example_block_counts fetchPools_weth
        weth_metrics_run silent_tokenPrices)
  also have "\<dots> = (tokenLines False 0 (hd ?ms), Some TypeError)"
    by (simp add: example_metrics_def reportPool_missing mainnet_addresses_def WETH_def
        weth_chain_def example_chain_def zeroAddress_def)
  also have "tokenLines False 0 (hd ?ms) =
      [Line ''Pool'' (Index 0),
       Line ''LP Asset'' (Text ''S*USDC''),
       Line ''Underlying Asset'' (Text ''Tether USD''),
       Line ''LP Token Address'' (Text ''0xLP0''),
       Line ''Token Address'' (Text ''0xC02aaA39b223FE8D0A0e5C4F27eAD9083C756Cc2''),
       Line ''User Staked'' (Units 10000000000 6),
       Line ''Pending STG'' (Units 5000000000000000000 18),
       Line ''User Daily Reward'' (Fixed 4 (Fin 720)),
       Line ''User Weekly Reward'' (Fixed 2 (Fin 5040)),
       Line ''User Monthly Reward'' (Fixed 2 (Fin 20160)),
       Line ''User Yearly Reward'' (Fixed 0 (Fin 241920))]"
    by (simp add: tokenLines_def example_metrics_def WETH_def STG_DECIMALS_def)
  finally show ?thesis .
qed

text \<open>
  C7 (amended). When the answer of the feed has no entry for the token of a pool,
  and that token is neither a stablecoin, nor the reward token, nor the zero
  address, the price table has no entry for it, and the report ends at that pool
  with a \<^verbatim>\<open>TypeError\<close>: the pools before it (all priced) are reported in full, the
  token-denominated lines of the pool are printed, none of its lines in USD is, and
  no later pool is reported.
\<close>

theorem C7_missing_price:
  assumes "CONTRACT_ADDRESSES_MAP chain = Some a"
    and "fetchTokenPrices feed (filteredTokens a tokens) = Inr fetched"
    and "tokenPrices chain feed stg tokens = Inr tp"
    and "fetched (token p) = None"
    and "token p \<noteq> USDC a" and "token p \<noteq> USDT a"
    and "token p \<noteq> stg" and "token p \<noteq> zeroAddress"
    and "\<forall>q \<in> set qs. tp (token q) \<noteq> None"
  shows "tp (token p) = None
    \<and> snd (reportPools verbose tp stg i qs) = None
    \<and> reportPools verbose tp stg i (qs @ p # ps)
        = (fst (reportPools verbose tp stg i qs) @ tokenLines verbose (i + length qs) p,
           Some TypeError)"
proof -
  have none: "tp (token p) = None"
    using tokenPrices_other [OF assms(3) assms(1) assms(2) assms(5-8)] assms(4) by simp
  have before: "snd (reportPools verbose tp stg i qs) = None"
    using tokenPrices_stg [OF assms(3)] assms(9) by (rule reportPools_priced)
  have head: "reportPools verbose tp stg (i + length qs) (p # ps)
        = (tokenLines verbose (i + length qs) p, Some TypeError)"
    using none by (rule reportPools_missing_head)
  have "reportPools verbose tp stg i (qs @ p # ps)
        = (fst (reportPools verbose tp stg i qs) @ tokenLines verbose (i + length qs) p,
           Some TypeError)"
    by (simp only: reportPools_append [OF before] head fst_conv snd_conv)
  with none before show ?thesis by blast
qed

theorem C7_missing_price_witness:
  "\<exists>tp. tokenPrices ''mainnet'' silent_feed (stargate example_chain)
           [USDT mainnet_addresses, WETH, USDC mainnet_addresses] = Inr tp
     \<and> tp WETH = None
     \<and> snd (reportPools False tp (stargate example_chain) 0 [example_metrics ! 1]) = None
     \<and> reportPools False tp (stargate example_chain) 0
          [example_metrics ! 1, (hd example_metrics)\<lparr>token := WETH\<rparr>, hd example_metrics]
        = (fst (reportPools False tp (stargate example_chain) 0 [example_metrics ! 1])
             @ tokenLines False 1 ((hd example_metrics)\<lparr>token := WETH\<rparr>),
           Some TypeError)"
proof -
  let ?stg = "stargate example_chain"
  let ?tokens = "[USDT mainnet_addresses, WETH, USDC mainnet_addresses]"
  let ?p = "(hd example_metrics)\<lparr>token := WETH\<rparr>"
  obtain tp where tp: "tokenPrices ''mainnet'' silent_feed ?stg ?tokens = Inr tp"
    by (simp add: silent_tokenPrices)
  have fetched: "fetchTokenPrices silent_feed (filteredTokens mainnet_addresses ?tokens)
                   = Inr Map.empty"
    by (rule fetch_silent)
  have tok: "token ?p \<noteq> USDC mainnet_addresses" "token ?p \<noteq> USDT mainnet_addresses"
    "token ?p \<noteq> ?stg" "token ?p \<noteq> zeroAddress"
    by (simp_all add: WETH_def mainnet_addresses_def example_chain_def zeroAddress_def)
  have priced: "\<forall>q \<in> set [example_metrics ! 1]. tp (token q) \<noteq> None"
    using tp by (auto simp: silent_tokenPrices example_metrics_def mainnet_addresses_def)
  have miss: "Map.empty (token ?p) = (None :: price option)" by simp
  from C7_missing_price [OF mainnet_map fetched tp miss tok priced,
      of False 0 "[hd example_metrics]"] tp
  show ?thesis by auto
qed

section \<open>A stake below one token: results\<close>





lemma dust_metrics_run:
  "activePoolsWithNames dust_chain example_counts (activePools example_pools)
     = Inr [hd example_metrics,
            (example_metrics ! 1)
              \<lparr>staked := 500000, dailyAPY := PInf, weeklyAPY := PInf, monthlyAPY := PInf,
               yearlyAPY := PInf, userStakedPct := Fin 100, userDailyReward := Fin 43200,
               userWeeklyReward := Fin 302400, userMonthlyReward := Fin 1209600,
               userYearlyReward := Fin 14515200\<rparr>]"
  by (simp add: activePoolsWithNames_def activePools_def example_pools_def poolMetrics_def
      dust_chain_def
      example_chain_def example_counts_def example_metrics_def Let_def
      calc_rewardPerBlock_def calc_rewardPer_def calc_stakedTokens_def calc_weeklyAPY_def
      calc_dailyAPY_def calc_monthlyAPY_def calc_yearlyAPY_def calc_userStakedPct_def
      calc_userReward_def stgPerBlockF_def STG_DECIMALS_def parseFloat_formatUnits_def
      Number_def bigint_pow_def bigint_div_def active_pool.defs pool_metrics.defs)


lemma silent_prices_stablecoins:
  assumes "tokenPrices ''mainnet'' silent_feed stg tokens = Inr tp"
  shows "tp stg \<noteq> None" "tp (USDC mainnet_addresses) \<noteq> None" "tp (USDT mainnet_addresses) \<noteq> None"
  using assms by (auto simp: silent_tokenPrices)




section \<open>A total of zero allocation points: results\<close>

lemma rewardPerBlock_line:
  "Line ''Reward Per Block'' (Fixed 2 (rewardPerBlock m)) \<in> set (tokenLines True i m)"
  by (simp add: tokenLines_def)

lemma zero_alloc_metrics_run:
  "activePoolsWithNames zero_alloc_chain example_counts (activePools example_pools)
     = Inr (map (\<lambda>m. m\<lparr>rewardPerBlock := PInf, rewardPerDay := PInf, rewardPerWeek := PInf,
                        rewardPerMonth := PInf, rewardPerYear := PInf, dailyAPY := PInf,
                        weeklyAPY := PInf, monthlyAPY := PInf, yearlyAPY := PInf,
                        userDailyReward := PInf, userWeeklyReward := PInf,
                        userMonthlyReward := PInf, userYearlyReward := PInf\<rparr>)
              example_metrics)"
  by (simp add: activePoolsWithNames_def activePools_def example_pools_def poolMetrics_def
      zero_alloc_chain_def
      example_chain_def example_counts_def example_metrics_def Let_def
      calc_rewardPerBlock_def calc_rewardPer_def calc_stakedTokens_def calc_weeklyAPY_def
      calc_dailyAPY_def calc_monthlyAPY_def calc_yearlyAPY_def calc_userStakedPct_def
      calc_userReward_def stgPerBlockF_def STG_DECIMALS_def parseFloat_formatUnits_def
      Number_def bigint_pow_def bigint_div_def active_pool.defs pool_metrics.defs)

lemma fetchPools_zero_alloc: "fetchPools zero_alloc_chain = Inr example_pools"
  by (simp add: fetchPools_def array_keys_def zero_alloc_chain_def example_chain_def
      example_pools_def upt_rec)

text \<open>
  C9, as the spec states it, fails: nothing guards against a total of zero. On the
  example chain with a total of zero allocation points and its two active pools,
  the run ends without an error, and its report has the line of a reward per block
  of plus infinity.
\<close>

theorem C9_zero_total_counterexample:
  "snd (run \<lparr>arg_chain = ''mainnet'', arg_verbose = True\<rparr> 1200 0 zero_alloc_chain silent_feed)
     = None
   \<and> Line ''Reward Per Block'' (Fixed 2 PInf)
       \<in> set (fst (run \<lparr>arg_chain = ''mainnet'', arg_verbose = True\<rparr> 1200 0
                      zero_alloc_chain silent_feed))"
proof -
  let ?args = "\<lparr>arg_chain = ''mainnet'', arg_verbose = True\<rparr>"
  let ?ms = "map (\<lambda>m. m\<lparr>rewardPerBlock := PInf, rewardPerDay := PInf, rewardPerWeek := PInf,
                        rewardPerMonth := PInf, rewardPerYear := PInf, dailyAPY := PInf,
                        weeklyAPY := PInf, monthlyAPY := PInf, yearlyAPY := PInf,
                        userDailyReward := PInf, userWeeklyReward := PInf,
                        userMonthlyReward := PInf, userYearlyReward := PInf\<rparr>)
              example_metrics"
  let ?stg = "stargate zero_alloc_chain"
  obtain tp where tp: "tokenPrices ''mainnet'' silent_feed ?stg (map token ?ms) = Inr tp"
    by (simp add: silent_tokenPrices)
  note priced = silent_prices_stablecoins [OF tp]
  have run: "run ?args 1200 0 zero_alloc_chain silent_feed = reportPools True tp ?stg 0 ?ms"
    using run_eq [of ?args mainnet_addresses 1200 0 12 example_counts zero_alloc_chain
        example_pools ?ms silent_feed tp] tp
    by (simp add: mainnet_map example_block_time example_block_counts fetchPools_zero_alloc
        zero_alloc_metrics_run)
  have toks: "\<forall>q \<in> set ?ms. tp (token q) \<noteq> None"
    using priced by (simp add: example_metrics_def mainnet_addresses_def)
  have ok: "snd (reportPools True tp ?stg 0 ?ms) = None"
    using priced(1) toks by (rule reportPools_priced)
  obtain m ms' where ms: "?ms = m # ms'" and m: "rewardPerBlock m = PInf"
    by (simp add: example_metrics_def)
  have "tp (token m) \<noteq> None"
    using toks ms by simp
  then obtain ls where first: "reportPool True tp ?stg 0 m = (tokenLines True 0 m @ ls, None)"
    using priced(1) by (auto simp: reportPool_def split: option.splits)
  obtain ls' r where rest: "reportPools True tp ?stg (Suc 0) ms' = (ls', r)"
    by (cases "reportPools True tp ?stg (Suc 0) ms'")
  have "fst (reportPools True tp ?stg 0 (m # ms')) = tokenLines True 0 m @ ls @ ls'"
    using first rest by simp
  moreover have "Line ''Reward Per Block'' (Fixed 2 PInf) \<in> set (tokenLines True 0 m)"
    using rewardPerBlock_line [of m 0] m by simp
  ultimately have "Line ''Reward Per Block'' (Fixed 2 PInf)
      \<in> set (fst (reportPools True tp ?stg 0 ?ms))"
    unfolding ms by simp
  with ok show ?thesis
    unfolding run by simp
qed

text \<open>
  C9 (amended). When the total of the allocation points is 0, no error is raised:
  the record of an active pool (allocation points above zero) is computed as for any
  other total, and its reward per block is not finite. It is plus infinity when the
  global reward per block is positive and \<open>NaN\<close> when that is zero, and the report
  prints it as it is.
\<close>

theorem C9_zero_total:
  assumes "totalAllocPoint c = 0" and "0 < allocPoint pool"
    and "calc_stakedTokens (lpBalances c (pid pool)) (lp_decimals c (contract pool)) = Inr st"
  shows "\<exists>m. poolMetrics c bc pool = Inr m
    \<and> \<not> is_finite (rewardPerBlock m)
    \<and> (0 < stargatePerBlock c \<longrightarrow> rewardPerBlock m = PInf)
    \<and> (stargatePerBlock c = 0 \<longrightarrow> rewardPerBlock m = NaN)
    \<and> Line ''Reward Per Block'' (Fixed 2 (rewardPerBlock m)) \<in> set (tokenLines True i m)"
proof -
  from poolMetrics_total [OF assms(3)] obtain m where pm: "poolMetrics c bc pool = Inr m"
    by blast
  have alloc: "allocPoint m = allocPoint pool"
    using pm by (rule poolMetrics_pool(3))
  have ratio: "js_div (Number (allocPoint m)) (Number (totalAllocPoint c)) = PInf"
    using assms(1,2) alloc by (simp add: Number_def)
  have block: "rewardPerBlock m = js_mul (stgPerBlockF (stargatePerBlock c)) PInf"
    using poolMetrics_reward(1) [OF pm] ratio by (simp add: calc_rewardPerBlock_def)
  have nf: "\<not> is_finite (rewardPerBlock m)"
    unfolding block by (simp add: stgPerBlockF_def parseFloat_formatUnits_def)
  have pos: "rewardPerBlock m = PInf" if "0 < stargatePerBlock c"
    unfolding block using that by (simp add: stgPerBlockF_def parseFloat_formatUnits_def)
  have zero: "rewardPerBlock m = NaN" if "stargatePerBlock c = 0"
    unfolding block using that by (simp add: stgPerBlockF_def parseFloat_formatUnits_def)
  from pm nf pos zero rewardPerBlock_line [of m i] show ?thesis by blast
qed

theorem C9_zero_total_witness:
  "totalAllocPoint zero_alloc_chain = 0
   \<and> 0 < allocPoint (hd (activePools example_pools))
   \<and> (\<exists>m. poolMetrics zero_alloc_chain example_counts (hd (activePools example_pools)) = Inr m
        \<and> rewardPerBlock m = PInf)"
proof -
  let ?pool = "hd (activePools example_pools)"
  have t: "totalAllocPoint zero_alloc_chain = 0"
    by (simp add: zero_alloc_chain_def)
  have a: "0 < allocPoint ?pool"
    by (simp add: activePools_def example_pools_def)
  have st: "calc_stakedTokens (lpBalances zero_alloc_chain (pid ?pool))
      (lp_decimals zero_alloc_chain (contract ?pool)) = Inr (Fin 100000)"
    by (simp add: activePools_def example_pools_def zero_alloc_chain_def example_chain_def
        calc_stakedTokens_def bigint_pow_def bigint_div_def Number_def)
  have s: "0 < stargatePerBlock zero_alloc_chain"
    by (simp add: zero_alloc_chain_def example_chain_def)
  from C9_zero_total [OF t a st, of example_counts 0] s t a show ?thesis
    by blast
qed

section \<open>The denominator of the yields: results\<close>

lemma poolMetrics_denominator:
  assumes pm: "poolMetrics c bc pool = Inr m"
  shows "pid m = pid pool
    \<and> staked m = lpBalances c (pid pool) \<and> decimals m = lp_decimals c (contract pool)
    \<and> 0 \<le> decimals m
    \<and> (0 \<le> staked m \<longrightarrow>
          calc_stakedTokens (staked m) (decimals m)
            = Inr (Number \<lfloor>real_of_int (staked m) / 10 ^ nat (decimals m)\<rfloor>)
          \<and> weeklyAPY m
              = js_div (js_mul (rewardPerWeek m) (Fin 100))
                  (Number \<lfloor>real_of_int (staked m) / 10 ^ nat (decimals m)\<rfloor>))
    \<and> (0 < staked m \<and> staked m < 10 ^ nat (decimals m) \<longrightarrow>
          calc_stakedTokens (staked m) (decimals m) = Inr (Fin 0)
          \<and> weeklyAPY m = js_div (js_mul (rewardPerWeek m) (Fin 100)) (Fin 0))"
proof -
  note rd = poolMetrics_reads [OF pm]
  from poolMetrics_apy(1) [OF pm] obtain st where
    st: "calc_stakedTokens (staked m) (decimals m) = Inr st"
    and weekly: "weeklyAPY m = js_div (js_mul (rewardPerWeek m) (Fin 100)) st"
    unfolding calc_weeklyAPY_def by blast
  have dec: "0 \<le> decimals m"
    using st by (rule calc_stakedTokens_Inr_decimals)
  have fl: "calc_stakedTokens (staked m) (decimals m)
            = Inr (Number \<lfloor>real_of_int (staked m) / 10 ^ nat (decimals m)\<rfloor>)
          \<and> weeklyAPY m
              = js_div (js_mul (rewardPerWeek m) (Fin 100))
                  (Number \<lfloor>real_of_int (staked m) / 10 ^ nat (decimals m)\<rfloor>)"
    if "0 \<le> staked m"
    using calc_stakedTokens_floor [OF that dec] st weekly by simp
  have zero: "calc_stakedTokens (staked m) (decimals m) = Inr (Fin 0)
          \<and> weeklyAPY m = js_div (js_mul (rewardPerWeek m) (Fin 100)) (Fin 0)"
    if "0 < staked m \<and> staked m < 10 ^ nat (decimals m)"
  proof -
    from that have "0 \<le> staked m" by simp
    from calc_stakedTokens_nonneg [OF this dec] that
    have "calc_stakedTokens (staked m) (decimals m) = Inr (Fin 0)"
      by (simp add: Number_def)
    with st weekly show ?thesis by simp
  qed
  from poolMetrics_pool(1) [OF pm] rd(2,1) dec fl zero show ?thesis by blast
qed

text \<open>
  C10. Whenever the records of the active pools are computed, there is one record for
  each active pool, in the order of the pools, holding the pool's total stake and
  decimals as read from the chain, and for a total stake that is not negative (it is
  an unsigned integer of the contract) the denominator of the weekly yield is the
  integer floor of the total stake divided by \<open>10^decimals\<close>, converted to a number.
  For a total stake that is positive and less than one whole token it is zero. The
  records are computed whenever no pool reports a negative number of decimals.
\<close>

theorem C10_stakedTokens_floor:
  "(\<forall>ms. activePoolsWithNames c bc pools = Inr ms \<longrightarrow>
      list_all2
        (\<lambda>pool m.
           pid m = pid pool
           \<and> staked m = lpBalances c (pid pool) \<and> decimals m = lp_decimals c (contract pool)
           \<and> 0 \<le> decimals m
           \<and> (0 \<le> staked m \<longrightarrow>
                 calc_stakedTokens (staked m) (decimals m)
                   = Inr (Number \<lfloor>real_of_int (staked m) / 10 ^ nat (decimals m)\<rfloor>)
                 \<and> weeklyAPY m
                     = js_div (js_mul (rewardPerWeek m) (Fin 100))
                         (Number \<lfloor>real_of_int (staked m) / 10 ^ nat (decimals m)\<rfloor>))
           \<and> (0 < staked m \<and> staked m < 10 ^ nat (decimals m) \<longrightarrow>
                 calc_stakedTokens (staked m) (decimals m) = Inr (Fin 0)
                 \<and> weeklyAPY m = js_div (js_mul (rewardPerWeek m) (Fin 100)) (Fin 0)))
        pools ms)
   \<and> ((\<forall>pool \<in> set pools. 0 \<le> lp_decimals c (contract pool)) \<longrightarrow>
        (\<exists>ms. activePoolsWithNames c bc pools = Inr ms))"
proof (intro conjI allI impI)
  fix ms assume run: "activePoolsWithNames c bc pools = Inr ms"
  show "list_all2
        (\<lambda>pool m.
           pid m = pid pool
           \<and> staked m = lpBalances c (pid pool) \<and> decimals m = lp_decimals c (contract pool)
           \<and> 0 \<le> decimals m
           \<and> (0 \<le> staked m \<longrightarrow>
                 calc_stakedTokens (staked m) (decimals m)
                   = Inr (Number \<lfloor>real_of_int (staked m) / 10 ^ nat (decimals m)\<rfloor>)
                 \<and> weeklyAPY m
                     = js_div (js_mul (rewardPerWeek m) (Fin 100))
                         (Number \<lfloor>real_of_int (staked m) / 10 ^ nat (decimals m)\<rfloor>))
           \<and> (0 < staked m \<and> staked m < 10 ^ nat (decimals m) \<longrightarrow>
                 calc_stakedTokens (staked m) (decimals m) = Inr (Fin 0)
                 \<and> weeklyAPY m = js_div (js_mul (rewardPerWeek m) (Fin 100)) (Fin 0)))
        pools ms"
    using activePoolsWithNames_all2 [OF run]
    by (rule list_all2_mono) (rule poolMetrics_denominator)
next
  assume "\<forall>pool \<in> set pools. 0 \<le> lp_decimals c (contract pool)"
  then show "\<exists>ms. activePoolsWithNames c bc pools = Inr ms"
    by (rule activePoolsWithNames_total)
qed

theorem C10_stakedTokens_floor_witness:
  "length example_metrics = length (activePools example_pools)
   \<and> staked (example_metrics ! 1) = lpBalances example_chain 3
   \<and> calc_stakedTokens 1500000 6 = Inr (Number \<lfloor>(1500000::real) / 10 ^ 6\<rfloor>)
   \<and> calc_stakedTokens 1500000 6 = Inr (Fin 1)
   \<and> weeklyAPY (example_metrics ! 1) = js_div (js_mul (Fin 302400) (Fin 100)) (Fin 1)
   \<and> (\<exists>ms. activePoolsWithNames dust_chain example_counts (activePools example_pools) = Inr ms
        \<and> length ms = length (activePools example_pools)
        \<and> staked (ms ! 1) = 500000
        \<and> calc_stakedTokens 500000 6 = Inr (Fin 0)
        \<and> weeklyAPY (ms ! 1) = js_div (js_mul (Fin 302400) (Fin 100)) (Fin 0))"
proof -
  have i: "1 < length (activePools example_pools)"
    by (simp add: activePools_def example_pools_def)
  have pool: "pid (activePools example_pools ! 1) = 3"
    by (simp add: activePools_def example_pools_def)
  note ex = C10_stakedTokens_floor [of example_chain example_counts "activePools example_pools"]
  note all2 = ex [THEN conjunct1, THEN spec, THEN mp, OF example_metrics_run]
  from all2 have len: "length example_metrics = length (activePools example_pools)"
    by (simp add: list_all2_lengthD)
  have vals: "staked (example_metrics ! 1) = 1500000" "decimals (example_metrics ! 1) = 6"
    "rewardPerWeek (example_metrics ! 1) = Fin 302400"
    by (simp_all add: example_metrics_def)
  then have nonneg: "0 \<le> staked (example_metrics ! 1)" by simp
  have fl: "\<lfloor>(1500000::real) / 10 ^ 6\<rfloor> = 1"
    by (simp add: floor_eq_iff)
  note nth = list_all2_nthD [OF all2 i]
  note nn = nth [THEN conjunct2, THEN conjunct2, THEN conjunct2, THEN conjunct2,
      THEN conjunct1, THEN mp, OF nonneg]
  have fl': "\<lfloor>real_of_int 1500000 / 10 ^ nat 6\<rfloor> = (1::int)"
    by (simp add: floor_eq_iff)
  from nn [THEN conjunct1]
  have "calc_stakedTokens 1500000 6 = Inr (Number 1)"
    by (simp only: vals fl')
  then have w1: "calc_stakedTokens 1500000 6 = Inr (Number \<lfloor>(1500000::real) / 10 ^ 6\<rfloor>)"
    and w2: "calc_stakedTokens 1500000 6 = Inr (Fin 1)"
    by (simp_all only: fl Number_def of_int_1)
  from nn [THEN conjunct2]
  have "weeklyAPY (example_metrics ! 1) = js_div (js_mul (Fin 302400) (Fin 100)) (Number 1)"
    by (simp only: vals fl')
  then have w3: "weeklyAPY (example_metrics ! 1) = js_div (js_mul (Fin 302400) (Fin 100)) (Fin 1)"
    by (simp only: Number_def of_int_1)
  have w0: "staked (example_metrics ! 1) = lpBalances example_chain 3"
    using nth [THEN conjunct2, THEN conjunct1] by (simp only: pool)
  note whole = w0 w1 w2 w3
  let ?ms = "[hd example_metrics,
            (example_metrics ! 1)
              \<lparr>staked := 500000, dailyAPY := PInf, weeklyAPY := PInf, monthlyAPY := PInf,
               yearlyAPY := PInf, userStakedPct := Fin 100, userDailyReward := Fin 43200,
               userWeeklyReward := Fin 302400, userMonthlyReward := Fin 1209600,
               userYearlyReward := Fin 14515200\<rparr>]"
  note dust = C10_stakedTokens_floor [of dust_chain example_counts "activePools example_pools"]
  note dall2 = dust [THEN conjunct1, THEN spec, THEN mp, OF dust_metrics_run]
  from dall2 have dlen: "length ?ms = length (activePools example_pools)"
    by (rule list_all2_lengthD [symmetric])
  have dvals: "staked (?ms ! 1) = 500000" "decimals (?ms ! 1) = 6"
    "rewardPerWeek (?ms ! 1) = Fin 302400"
    by (simp_all add: example_metrics_def)
  then have below: "0 < staked (?ms ! 1) \<and> staked (?ms ! 1) < 10 ^ nat (decimals (?ms ! 1))"
    by simp
  note dz = list_all2_nthD [OF dall2 i, THEN conjunct2, THEN conjunct2, THEN conjunct2,
      THEN conjunct2, THEN conjunct2, THEN mp, OF below]
  from dz [THEN conjunct1] dz [THEN conjunct2] have "calc_stakedTokens 500000 6 = Inr (Fin 0)"
    and "weeklyAPY (?ms ! 1) = js_div (js_mul (Fin 302400) (Fin 100)) (Fin 0)"
    by (simp_all only: dvals)
  with dust_metrics_run dlen dvals(1)
  have "activePoolsWithNames dust_chain example_counts (activePools example_pools) = Inr ?ms
        \<and> length ?ms = length (activePools example_pools)
        \<and> staked (?ms ! 1) = 500000
        \<and> calc_stakedTokens 500000 6 = Inr (Fin 0)
        \<and> weeklyAPY (?ms ! 1) = js_div (js_mul (Fin 302400) (Fin 100)) (Fin 0)"
    by (intro conjI)
  then have "\<exists>ms. activePoolsWithNames dust_chain example_counts (activePools example_pools)
          = Inr ms
        \<and> length ms = length (activePools example_pools)
        \<and> staked (ms ! 1) = 500000
        \<and> calc_stakedTokens 500000 6 = Inr (Fin 0)
        \<and> weeklyAPY (ms ! 1) = js_div (js_mul (Fin 302400) (Fin 100)) (Fin 0)"
    by (rule exI [where x = "?ms"])
  with len whole show ?thesis
    by (intro conjI)
qed

end
